theory Spec2Isabelle
  imports Complex_Main "HOL-Library.Multiset" "HOL-Library.Sublist"
begin

section \<open>Python values used by convert.py\<close>

text \<open>
  Exceptions are values. \<open>Exception msg\<close> stands for an instance of any class derived from
  Python's \<open>Exception\<close> (OSError, ValueError, PIL's UnidentifiedImageError, EOFError,
  ZeroDivisionError, ...) whose \<open>str(e)\<close> is \<open>msg\<close>; these are the errors that the clause
  \<open>except Exception as e\<close> catches. \<open>SystemExit code\<close> is what \<open>sys.exit(code)\<close> raises and
  \<open>KeyboardInterrupt\<close> is the interrupt signal: both derive from BaseException only, so
  \<open>except Exception\<close> lets them through.
\<close>

datatype py_exn = Exception string | SystemExit int | KeyboardInterrupt

text \<open>\<open>sum(...)\<close> over a generator of ints: a left fold that starts at 0.\<close>

definition py_sum :: "int list \<Rightarrow> int" where
  "py_sum xs = foldl (+) 0 xs"

text \<open>
  \<open>a / b\<close> on ints (true division). It raises ZeroDivisionError on a zero divisor. The
  quotient is kept exact (a rational); the rounding to a double is not modelled.
\<close>

definition py_truediv :: "int \<Rightarrow> int \<Rightarrow> py_exn + rat" where
  "py_truediv a b =
     (if b = 0 then Inl (Exception ''division by zero'') else Inr (of_int a / of_int b))"

text \<open>
  \<open>sorted(xs, key=key, reverse=reverse)\<close>. The builtin is a stable sort; with
  \<open>reverse=True\<close> CPython reverses the list, sorts it stably in ascending order and
  reverses the result, which is what is written here.
\<close>

definition py_sorted :: "('a \<Rightarrow> int) \<Rightarrow> bool \<Rightarrow> 'a list \<Rightarrow> 'a list" where
  "py_sorted key reverse xs =
     (if reverse then rev (sort_key key (rev xs)) else sort_key key xs)"

text \<open>
  A Python \<open>str\<close> is kept as the list of the bytes of its UTF-8 encoding, so that a
  character outside ASCII is two to four bytes.

  \<open>str.lower()\<close> is written for the ASCII letters only. That decides every comparison of
  a lower-cased string with \<open>'q'\<close>, \<open>'quit'\<close> and \<open>'.icns'\<close> as Python does: the letters
  A to Z are the only characters whose lower case is one of the characters of these
  literals.
\<close>

definition lower_char :: "char \<Rightarrow> char" where
  "lower_char c =
     (case map_of (zip ''ABCDEFGHIJKLMNOPQRSTUVWXYZ'' ''abcdefghijklmnopqrstuvwxyz'') c of
        Some d \<Rightarrow> d
      | None \<Rightarrow> c)"

definition lower :: "string \<Rightarrow> string" where
  "lower s = map lower_char s"

text \<open>
  The characters for which \<open>str.isspace()\<close> holds, which are the ones that
  \<open>str.strip()\<close> removes, each as its UTF-8 encoding: the ASCII ones U+0009 to U+000D,
  U+001C to U+001F and U+0020, then U+0085, U+00A0, U+1680, U+2000 to U+200A, U+2028,
  U+2029, U+202F, U+205F and U+3000.
\<close>

definition isspace :: "string \<Rightarrow> bool" where
  "isspace u \<longleftrightarrow>
     u \<in> set [[CHR 0x09], [CHR 0x0A], [CHR 0x0B], [CHR 0x0C], [CHR 0x0D],
              [CHR 0x1C], [CHR 0x1D], [CHR 0x1E], [CHR 0x1F], [CHR 0x20],
              [CHR 0xC2, CHR 0x85], [CHR 0xC2, CHR 0xA0],
              [CHR 0xE1, CHR 0x9A, CHR 0x80],
              [CHR 0xE2, CHR 0x80, CHR 0x80], [CHR 0xE2, CHR 0x80, CHR 0x81],
              [CHR 0xE2, CHR 0x80, CHR 0x82], [CHR 0xE2, CHR 0x80, CHR 0x83],
              [CHR 0xE2, CHR 0x80, CHR 0x84], [CHR 0xE2, CHR 0x80, CHR 0x85],
              [CHR 0xE2, CHR 0x80, CHR 0x86], [CHR 0xE2, CHR 0x80, CHR 0x87],
              [CHR 0xE2, CHR 0x80, CHR 0x88], [CHR 0xE2, CHR 0x80, CHR 0x89],
              [CHR 0xE2, CHR 0x80, CHR 0x8A],
              [CHR 0xE2, CHR 0x80, CHR 0xA8], [CHR 0xE2, CHR 0x80, CHR 0xA9],
              [CHR 0xE2, CHR 0x80, CHR 0xAF], [CHR 0xE2, CHR 0x81, CHR 0x9F],
              [CHR 0xE3, CHR 0x80, CHR 0x80]]"

text \<open>
  \<open>str.lstrip()\<close>: whitespace characters are removed from the front, one encoded
  character at a time, up to the first character that is no whitespace.
\<close>

fun lstrip :: "string \<Rightarrow> string" where
  "lstrip (a # b # c # s) =
     (if isspace [a] then lstrip (b # c # s)
      else if isspace [a, b] then lstrip (c # s)
      else if isspace [a, b, c] then lstrip s
      else a # b # c # s)"
| "lstrip [a, b] =
     (if isspace [a] then lstrip [b] else if isspace [a, b] then [] else [a, b])"
| "lstrip [a] = (if isspace [a] then [] else [a])"
| "lstrip [] = []"

text \<open>
  \<open>str.rstrip()\<close>, on the reversed string: the last byte comes first, so the encoded
  characters are read backwards.
\<close>

fun rstrip_rev :: "string \<Rightarrow> string" where
  "rstrip_rev (c # b # a # s) =
     (if isspace [c] then rstrip_rev (b # a # s)
      else if isspace [b, c] then rstrip_rev (a # s)
      else if isspace [a, b, c] then rstrip_rev s
      else c # b # a # s)"
| "rstrip_rev [c, b] =
     (if isspace [c] then rstrip_rev [b] else if isspace [b, c] then [] else [c, b])"
| "rstrip_rev [c] = (if isspace [c] then [] else [c])"
| "rstrip_rev [] = []"

definition rstrip :: "string \<Rightarrow> string" where
  "rstrip s = rev (rstrip_rev (rev s))"

definition strip :: "string \<Rightarrow> string" where
  "strip s = rstrip (lstrip s)"

text \<open>\<open>s.rfind(c)\<close>: the highest index of \<open>c\<close> in \<open>s\<close>, or -1.\<close>

fun rfind :: "string \<Rightarrow> char \<Rightarrow> int" where
  "rfind [] c = -1"
| "rfind (x # xs) c =
     (let r = rfind xs c in if 0 \<le> r then r + 1 else if x = c then 0 else -1)"

text \<open>
  \<open>PurePath.suffix\<close> and \<open>PurePath.stem\<close> of pathlib (as in CPython 3.11), on the final
  path component: the name is cut at its last dot, unless that dot is the first or the
  last character.
\<close>

definition suffix_of :: "string \<Rightarrow> string" where
  "suffix_of nm =
     (let i = rfind nm (CHR ''.'')
      in if 0 < i \<and> i < int (length nm) - 1 then drop (nat i) nm else [])"

definition stem :: "string \<Rightarrow> string" where
  "stem nm =
     (let i = rfind nm (CHR ''.'')
      in if 0 < i \<and> i < int (length nm) - 1 then take (nat i) nm else nm)"

section \<open>Data model\<close>

text \<open>The dict appended to \<open>stats\<close> for a converted file (convert.py, lines 67-71).\<close>

record conversion_result =
  filename :: string
  original_size :: int
  converted_size :: int

section \<open>print_summary\<close>

text \<open>The local variables of \<open>print_summary(stats)\<close>, lines 81-99.\<close>

definition total_orig :: "conversion_result list \<Rightarrow> int" where
  "total_orig stats = py_sum (map original_size stats)"

definition total_conv :: "conversion_result list \<Rightarrow> int" where
  "total_conv stats = py_sum (map converted_size stats)"

definition delta :: "conversion_result list \<Rightarrow> int" where
  "delta stats = total_conv stats - total_orig stats"

text \<open>The arrows are the UTF-8 bytes of U+2191 and U+2193.\<close>

definition arrow_up :: string where
  "arrow_up = [CHR 0xE2, CHR 0x86, CHR 0x91]"

definition arrow_down :: string where
  "arrow_down = [CHR 0xE2, CHR 0x86, CHR 0x93]"

text \<open>colorama's \<open>Fore.RED\<close> and \<open>Fore.GREEN\<close>.\<close>

definition Fore_RED :: string where
  "Fore_RED = CHR 0x1B # ''[31m''"

definition Fore_GREEN :: string where
  "Fore_GREEN = CHR 0x1B # ''[32m''"

definition sign :: "conversion_result list \<Rightarrow> string" where
  "sign stats = (if delta stats > 0 then arrow_up else arrow_down)"

definition color :: "conversion_result list \<Rightarrow> string" where
  "color stats = (if delta stats > 0 then Fore_RED else Fore_GREEN)"

definition top3 :: "conversion_result list \<Rightarrow> conversion_result list" where
  "top3 stats = take 3 (py_sorted converted_size True stats)"

definition ratio :: "conversion_result \<Rightarrow> py_exn + rat" where
  "ratio s =
     (if original_size s \<noteq> 0 then py_truediv (converted_size s) (original_size s)
      else Inr 1)"

text \<open>
  The loop \<open>for s in top3\<close>: one printed line per entry, made of the entry and its ratio.
  An exception raised by the division would leave the loop.
\<close>

fun top3_lines :: "conversion_result list \<Rightarrow> py_exn + (conversion_result \<times> rat) list" where
  "top3_lines [] = Inr []"
| "top3_lines (s # rest) =
     (case ratio s of
        Inl e \<Rightarrow> Inl e
      | Inr r \<Rightarrow> (case top3_lines rest of Inl e \<Rightarrow> Inl e | Inr ls \<Rightarrow> Inr ((s, r) # ls)))"

text \<open>
  What \<open>print_summary\<close> prints: the numbers and strings that its f-strings format.
  \<open>humanize.naturalsize\<close> and the colour codes around the lines are presentation and are
  left out. \<open>top3_report\<close> is \<open>None\<close> when the block under \<open>if stats:\<close> is not entered.
\<close>

record summary =
  files_converted :: nat
  original_total :: int
  converted_total :: int
  change_sign :: string
  change_color :: string
  change_size :: int
  top3_report :: "(conversion_result \<times> rat) list option"

definition print_summary :: "conversion_result list \<Rightarrow> py_exn + summary" where
  "print_summary stats =
     (let head = \<lparr>files_converted = length stats,
                  original_total = total_orig stats,
                  converted_total = total_conv stats,
                  change_sign = sign stats,
                  change_color = color stats,
                  change_size = \<bar>delta stats\<bar>,
                  top3_report = None\<rparr>
      in if stats \<noteq> [] then
           (case top3_lines (top3 stats) of
              Inl e \<Rightarrow> Inl e
            | Inr ls \<Rightarrow> Inr (head\<lparr>top3_report := Some ls\<rparr>))
         else Inr head)"

section \<open>The world outside the program\<close>

text \<open>
  A directory entry as the list comprehension of line 39 sees it: its \<open>name\<close> and the
  answer of \<open>is_file()\<close>.
\<close>

record entry =
  name :: string
  is_file :: bool

text \<open>A path is a directory and a final component: \<open>input_dir / name\<close>.\<close>

type_synonym path = "string \<times> string"

definition input_dir :: string where
  "input_dir = ''input''"

definition output_dir :: string where
  "output_dir = ''output''"

text \<open>
  The operations of pathlib and PIL that \<open>convert_files\<close> calls, over an abstract file
  system \<open>'fs\<close> and an abstract image \<open>'img\<close>. Each one either raises or returns;
  \<open>image_save\<close> may change the file system even when it raises.
\<close>

record ('fs, 'img) world =
  mkdir :: "'fs \<Rightarrow> string \<Rightarrow> py_exn + 'fs"
  iterdir :: "'fs \<Rightarrow> string \<Rightarrow> py_exn + entry list"
  stat_size :: "'fs \<Rightarrow> path \<Rightarrow> py_exn + int"
  image_open :: "'fs \<Rightarrow> path \<Rightarrow> py_exn + 'img"
  image_load :: "'img \<Rightarrow> py_exn + 'img"
  image_mode :: "'img \<Rightarrow> string"
  image_convert :: "'img \<Rightarrow> string \<Rightarrow> py_exn + 'img"
  image_save :: "'fs \<Rightarrow> path \<Rightarrow> 'img \<Rightarrow> 'fs \<times> py_exn option"

text \<open>
  What the program writes to the terminal, one event for each group of \<open>print\<close> calls,
  and the state it runs in: the file system, the lines still to be read by \<open>input()\<close> and
  the events printed so far. Printing is taken to succeed: \<open>print\<close>, \<open>tqdm.write\<close> and
  \<open>set_description\<close> raise nothing. The tqdm bar itself is not modelled, only the
  description it is given. When an exception leaves a function, the state is dropped with
  it.
\<close>

datatype event =
    Header
  | FormatPrompt
  | Exiting
  | NoFiles
  | Found nat
  | Description string
  | ErrorLine string string
  | Summary summary
  | Ready

record 'fs state =
  filesys :: 'fs
  stdin :: "string list"
  stdout :: "event list"

definition py_print :: "event \<Rightarrow> 'fs state \<Rightarrow> 'fs state" where
  "py_print ev st = st\<lparr>stdout := stdout st @ [ev]\<rparr>"

definition py_input :: "'fs state \<Rightarrow> py_exn + (string \<times> 'fs state)" where
  "py_input st =
     (case stdin st of
        [] \<Rightarrow> Inl (Exception ''EOF when reading a line'')
      | l # ls \<Rightarrow> Inr (l, st\<lparr>stdin := ls\<rparr>))"

text \<open>\<open>input().strip().lower() in ('q', 'quit')\<close>\<close>

definition wants_quit :: "string \<Rightarrow> bool" where
  "wants_quit l \<longleftrightarrow> lower (strip l) \<in> set [''q'', ''quit'']"

section \<open>ask_output_format\<close>

definition ask_output_format :: "'fs state \<Rightarrow> py_exn + (string \<times> 'fs state)" where
  "ask_output_format st =
     (case py_input (py_print FormatPrompt st) of
        Inl e \<Rightarrow> Inl e
      | Inr (user_input, st') \<Rightarrow>
          if wants_quit user_input then Inl (SystemExit 0) else Inr (''png'', st'))"

section \<open>convert_files\<close>

text \<open>Line 39: the list bound to \<open>files\<close>, from the entries that \<open>iterdir()\<close> yields.\<close>

definition icns_files :: "entry list \<Rightarrow> entry list" where
  "icns_files es = filter (\<lambda>f. is_file f \<and> lower (suffix_of (name f)) = ''.icns'') es"

text \<open>Lines 62-63.\<close>

definition normalize :: "('fs, 'img) world \<Rightarrow> 'img \<Rightarrow> py_exn + 'img" where
  "normalize w img =
     (if image_mode w img \<notin> set [''RGB'', ''RGBA''] then image_convert w img ''RGBA''
      else Inr img)"

text \<open>
  Lines 64-71: the image is saved under the stem of the name with the extension
  \<open>.png\<close>, and the dict is built with the size of the written file read back.
\<close>

definition save_png ::
  "('fs, 'img) world \<Rightarrow> 'fs \<Rightarrow> string \<Rightarrow> int \<Rightarrow> 'img \<Rightarrow> 'fs \<times> (py_exn + conversion_result)" where
  "save_png w fs nm orig_size img =
     (let out_path = (output_dir, stem nm @ ''.png'')
      in case image_save w fs out_path img of
        (fs', Some e) \<Rightarrow> (fs', Inl e)
      | (fs', None) \<Rightarrow>
     (case stat_size w fs' out_path of
        Inl e \<Rightarrow> (fs', Inl e)
      | Inr conv_size \<Rightarrow>
          (fs', Inr \<lparr>filename = nm, original_size = orig_size,
                     converted_size = conv_size\<rparr>)))"

text \<open>
  Lines 59-71, the body of \<open>try\<close> up to the dict that is appended: the file system after
  it, and either the exception that left it or the dict.
\<close>

definition convert_one ::
  "('fs, 'img) world \<Rightarrow> 'fs \<Rightarrow> string \<Rightarrow> 'fs \<times> (py_exn + conversion_result)" where
  "convert_one w fs nm =
     (case stat_size w fs (input_dir, nm) of
        Inl e \<Rightarrow> (fs, Inl e)
      | Inr orig_size \<Rightarrow>
     (case image_open w fs (input_dir, nm) of
        Inl e \<Rightarrow> (fs, Inl e)
      | Inr img0 \<Rightarrow>
     (case image_load w img0 of
        Inl e \<Rightarrow> (fs, Inl e)
      | Inr img1 \<Rightarrow>
     (case normalize w img1 of
        Inl e \<Rightarrow> (fs, Inl e)
      | Inr img \<Rightarrow> save_png w fs nm orig_size img))))"

text \<open>
  Lines 57-74, the loop over \<open>files\<close>. \<open>except Exception as e\<close> catches the exceptions
  built with \<open>Exception\<close> and reports them; any other one leaves the loop.
\<close>

fun convert_loop ::
  "('fs, 'img) world \<Rightarrow> entry list \<Rightarrow> conversion_result list \<Rightarrow> 'fs state \<Rightarrow>
     py_exn + (conversion_result list \<times> 'fs state)" where
  "convert_loop w [] stats st = Inr (stats, st)"
| "convert_loop w (fp # rest) stats st =
     (case convert_one w (filesys st) (name fp) of
        (fs', Inr r) \<Rightarrow>
          convert_loop w rest (stats @ [r])
            (py_print (Description ('' '' @ take 25 (stem (name fp)) @ ''.png''))
               (st\<lparr>filesys := fs'\<rparr>))
      | (fs', Inl (Exception e)) \<Rightarrow>
          convert_loop w rest stats (py_print (ErrorLine (name fp) e) (st\<lparr>filesys := fs'\<rparr>))
      | (fs', Inl x) \<Rightarrow> Inl x)"

definition convert_files ::
  "('fs, 'img) world \<Rightarrow> 'fs state \<Rightarrow> py_exn + (conversion_result list option \<times> 'fs state)" where
  "convert_files w st =
     (case mkdir w (filesys st) input_dir of
        Inl e \<Rightarrow> Inl e
      | Inr fs1 \<Rightarrow>
     (case mkdir w fs1 output_dir of
        Inl e \<Rightarrow> Inl e
      | Inr fs2 \<Rightarrow>
     (case iterdir w fs2 input_dir of
        Inl e \<Rightarrow> Inl e
      | Inr es \<Rightarrow>
          if icns_files es = [] then
            (case py_input (py_print NoFiles (st\<lparr>filesys := fs2\<rparr>)) of
               Inl e \<Rightarrow> Inl e
             | Inr (choice, st') \<Rightarrow>
                 if wants_quit choice then Inl (SystemExit 0) else Inr (None, st'))
          else
            (case convert_loop w (icns_files es) []
                    (py_print (Found (length (icns_files es))) (st\<lparr>filesys := fs2\<rparr>)) of
               Inl e \<Rightarrow> Inl e
             | Inr (stats, st') \<Rightarrow> Inr (Some stats, st')))))"

section \<open>main\<close>

text \<open>
  How one pass through the body of \<open>while True\<close> ends: at the \<open>continue\<close> of line 110,
  at the \<open>break\<close> of line 120, or at the end of the body, after which the loop restarts.
\<close>

datatype control = Continue | Break | Restart

text \<open>Lines 105-120, the body of the loop.\<close>

definition main_body ::
  "('fs, 'img) world \<Rightarrow> 'fs state \<Rightarrow> py_exn + (control \<times> 'fs state)" where
  "main_body w st =
     (case ask_output_format (py_print Header st) of
        Inl e \<Rightarrow> Inl e
      | Inr (fmt, st1) \<Rightarrow>
     (case convert_files w st1 of
        Inl e \<Rightarrow> Inl e
      | Inr (None, st2) \<Rightarrow> Inr (Continue, st2)
      | Inr (Some stats, st2) \<Rightarrow>
     (case (if stats \<noteq> [] then
              (case print_summary stats of
                 Inl e \<Rightarrow> Inl e
               | Inr s \<Rightarrow> Inr (py_print (Summary s) st2))
            else Inr st2) of
        Inl e \<Rightarrow> Inl e
      | Inr st3 \<Rightarrow>
     (case py_input (py_print Ready st3) of
        Inl e \<Rightarrow> Inl e
      | Inr (choice, st4) \<Rightarrow>
          if wants_quit choice then Inr (Break, py_print Exiting st4)
          else Inr (Restart, st4)))))"

text \<open>
  \<open>while True\<close>. Every pass reads at least one line in \<open>ask_output_format\<close>, and
  \<open>input()\<close> raises EOFError when no line is left, so on a finite input the loop ends:
  the number of lines still to be read decreases.
\<close>

function main :: "('fs, 'img) world \<Rightarrow> 'fs state \<Rightarrow> py_exn + 'fs state" where
  "main w st =
     (case main_body w st of
        Inl e \<Rightarrow> Inl e
      | Inr (Break, st') \<Rightarrow> Inr st'
      | Inr (Continue, st') \<Rightarrow> main w st'
      | Inr (Restart, st') \<Rightarrow> main w st')"
  by pat_completeness auto
termination
proof -
  have inp: "length (stdin st') < length (stdin st)"
    if "py_input st = Inr (l, st')" for st st' :: "'fs state" and l
    using that by (auto simp: py_input_def split: list.splits)
  have loop: "stdin st' = stdin st"
    if "convert_loop w files stats st = Inr (stats', st')"
    for w :: "('fs, 'img) world" and files stats stats' and st st' :: "'fs state"
    using that
  proof (induction files arbitrary: stats st)
    case Nil
    then show ?case by simp
  next
    case (Cons fp rest)
    then show ?case
      by (auto simp: py_print_def split: prod.splits sum.splits py_exn.splits)
  qed
  have cf: "length (stdin st') \<le> length (stdin st)"
    if "convert_files w st = Inr (r, st')"
    for w :: "('fs, 'img) world" and r and st st' :: "'fs state"
    using that
    by (auto simp: convert_files_def py_print_def dest!: inp loop
             split: sum.splits if_splits prod.splits)
  have ask: "length (stdin st') < length (stdin st)"
    if "ask_output_format st = Inr (f, st')" for f and st st' :: "'fs state"
    using that
    by (auto simp: ask_output_format_def py_print_def dest!: inp
             split: sum.splits if_splits prod.splits)
  have body: "length (stdin st') < length (stdin st)"
    if "main_body w st = Inr (c, st')"
    for w :: "('fs, 'img) world" and c and st st' :: "'fs state"
    using that
    by (fastforce simp: main_body_def py_print_def dest!: inp cf ask
             split: sum.splits if_splits prod.splits option.splits)
  show ?thesis
    by (relation "measure (\<lambda>(w, st). length (stdin st))") (auto dest: body)
qed

declare main.simps [simp del]

section \<open>Observing a run of the loop\<close>

text \<open>
  What the \<open>try\<close> block does for each file of a batch in turn, each one on the file
  system that the files before it left: the list of its outcomes and the file system at
  the end. These are not functions of convert.py; the theorems use them to say what the
  loop did.
\<close>

fun outcomes ::
  "('fs, 'img) world \<Rightarrow> 'fs \<Rightarrow> entry list \<Rightarrow> (py_exn + conversion_result) list" where
  "outcomes w fs [] = []"
| "outcomes w fs (fp # rest) =
     snd (convert_one w fs (name fp)) # outcomes w (fst (convert_one w fs (name fp))) rest"

fun fs_after :: "('fs, 'img) world \<Rightarrow> 'fs \<Rightarrow> entry list \<Rightarrow> 'fs" where
  "fs_after w fs [] = fs"
| "fs_after w fs (fp # rest) = fs_after w (fst (convert_one w fs (name fp))) rest"

text \<open>The dicts of the outcomes that are dicts, in order.\<close>

fun successes :: "(py_exn + conversion_result) list \<Rightarrow> conversion_result list" where
  "successes [] = []"
| "successes (Inr r # os) = r # successes os"
| "successes (Inl e # os) = successes os"

text \<open>An outcome escapes the loop when it is an exception that \<open>except Exception\<close> lets through.\<close>

fun escapes :: "py_exn + conversion_result \<Rightarrow> bool" where
  "escapes (Inr r) = False"
| "escapes (Inl (Exception e)) = False"
| "escapes (Inl x) = True"

text \<open>What the loop prints for a file with a given outcome.\<close>

fun loop_events :: "entry list \<Rightarrow> (py_exn + conversion_result) list \<Rightarrow> event list" where
  "loop_events (fp # fps) (Inr r # os) =
     Description ('' '' @ take 25 (stem (name fp)) @ ''.png'') # loop_events fps os"
| "loop_events (fp # fps) (Inl (Exception e) # os) = ErrorLine (name fp) e # loop_events fps os"
| "loop_events fps os = []"

section \<open>A small world to run the program in\<close>

text \<open>
  A file system as an association list from paths to files, the newest binding first. An
  icon has a pixel mode and a size; anything else in the input directory cannot be decoded.
  A saved PNG is 100 bytes larger than the icon it comes from.
\<close>

datatype demo_file = Icon string int | Junk int | Png string int

fun demo_size :: "demo_file \<Rightarrow> int" where
  "demo_size (Icon m n) = n"
| "demo_size (Junk n) = n"
| "demo_size (Png m n) = n"

definition demo_world :: "((path \<times> demo_file) list, string \<times> int) world" where
  "demo_world =
     \<lparr>mkdir = (\<lambda>fs d. Inr fs),
      iterdir = (\<lambda>fs d. Inr (map (\<lambda>b. \<lparr>name = snd (fst b), is_file = True\<rparr>)
                                (filter (\<lambda>b. fst (fst b) = d) fs))),
      stat_size = (\<lambda>fs p. case map_of fs p of
                             None \<Rightarrow> Inl (Exception ''No such file or directory'')
                           | Some f \<Rightarrow> Inr (demo_size f)),
      image_open = (\<lambda>fs p. case map_of fs p of
                              Some (Icon m n) \<Rightarrow> Inr (m, n)
                            | _ \<Rightarrow> Inl (Exception ''cannot identify image file'')),
      image_load = Inr,
      image_mode = fst,
      image_convert = (\<lambda>img m. Inr (m, snd img)),
      image_save = (\<lambda>fs p img. ((p, Png (fst img) (snd img + 100)) # fs, None))\<rparr>"

definition demo_state :: "(path \<times> demo_file) list \<Rightarrow> string list \<Rightarrow> (path \<times> demo_file) list state" where
  "demo_state fs ls = \<lparr>filesys = fs, stdin = ls, stdout = []\<rparr>"

text \<open>A batch outcome with ties between converted sizes and a zero original size.\<close>

definition demo_stats :: "conversion_result list" where
  "demo_stats =
     [\<lparr>filename = ''a.icns'', original_size = 10, converted_size = 5\<rparr>,
      \<lparr>filename = ''b.icns'', original_size = 0, converted_size = 7\<rparr>,
      \<lparr>filename = ''c.icns'', original_size = 10, converted_size = 5\<rparr>,
      \<lparr>filename = ''d.icns'', original_size = 14, converted_size = 7\<rparr>,
      \<lparr>filename = ''e.icns'', original_size = 10, converted_size = 9\<rparr>]"

text \<open>A directory listing: two icons, a text file, a directory and a hidden file.\<close>

definition demo_entries :: "entry list" where
  "demo_entries =
     [\<lparr>name = ''a.icns'', is_file = True\<rparr>,
      \<lparr>name = ''notes.txt'', is_file = True\<rparr>,
      \<lparr>name = ''dir.icns'', is_file = False\<rparr>,
      \<lparr>name = ''B.v2.IcNs'', is_file = True\<rparr>,
      \<lparr>name = ''.icns'', is_file = True\<rparr>]"

text \<open>An input directory with two icons, a file that is no icon and a text file.\<close>

definition demo_fs :: "(path \<times> demo_file) list" where
  "demo_fs =
     [((''input'', ''a.icns''), Icon ''P'' 100),
      ((''input'', ''b.ICNS''), Junk 50),
      ((''input'', ''notes.txt''), Junk 7),
      ((''input'', ''c.icns''), Icon ''RGB'' 30)]"

text \<open>The batch outcome of a run on \<open>demo_fs\<close>.\<close>

definition demo_outcome :: "conversion_result list" where
  "demo_outcome =
     [\<lparr>filename = ''a.icns'', original_size = 100, converted_size = 200\<rparr>,
      \<lparr>filename = ''c.icns'', original_size = 30, converted_size = 130\<rparr>]"

text \<open>An input directory in which no file can be decoded.\<close>

definition demo_junk :: "(path \<times> demo_file) list" where
  "demo_junk = [((''input'', ''x.icns''), Junk 3), ((''input'', ''y.icns''), Png ''RGB'' 9)]"

text \<open>The same world with a PIL that cannot convert between modes.\<close>

definition demo_world_no_convert :: "((path \<times> demo_file) list, string \<times> int) world" where
  "demo_world_no_convert =
     demo_world\<lparr>image_convert := (\<lambda>img m. Inl (Exception ''conversion not supported''))\<rparr>"

text \<open>
  A reply to a prompt: the letter Q between an ideographic space (U+3000) and a no-break
  space (U+00A0).
\<close>

definition quit_reply :: string where
  "quit_reply = [CHR 0xE3, CHR 0x80, CHR 0x80, CHR ''Q'', CHR 0xC2, CHR 0xA0]"

section \<open>Facts about the Python values\<close>

lemma foldl_add_sum_list: "foldl (+) a xs = a + sum_list (xs :: int list)"
  by (induction xs arbitrary: a) simp_all

lemma py_sum_sum_list: "py_sum xs = sum_list xs"
  by (simp add: py_sum_def foldl_add_sum_list)

lemma mset_py_sorted: "mset (py_sorted key b xs) = mset xs"
  by (simp add: py_sorted_def)

lemma py_sorted_reverse_sorted:
  "sorted_wrt (\<lambda>a b. key a \<ge> key b) (py_sorted key True xs)"
proof -
  have "sorted (map key (sort_key key (rev xs)))"
    by simp
  then have "sorted_wrt (\<lambda>x y. key x \<le> key y) (sort_key key (rev xs))"
    by (simp add: sorted_map)
  then show ?thesis
    by (simp add: py_sorted_def sorted_wrt_rev)
qed

lemma py_sorted_stable:
  "filter (\<lambda>y. key y = k) (py_sorted key b xs) = filter (\<lambda>y. key y = k) xs"
proof (cases b)
  case True
  have "filter (\<lambda>y. key y = k) (rev (sort_key key (rev xs)))
      = rev (filter (\<lambda>y. key y = k) (sort_key key (rev xs)))"
    by (simp add: rev_filter)
  also have "\<dots> = rev (filter (\<lambda>y. key y = k) (rev xs))"
    by (simp only: sort_key_stable)
  also have "\<dots> = filter (\<lambda>y. key y = k) xs"
    by (simp add: rev_filter)
  finally show ?thesis using True by (simp add: py_sorted_def)
next
  case False
  then show ?thesis by (simp add: py_sorted_def sort_key_stable)
qed

lemma ratio_value:
  "ratio s = Inr (if original_size s = 0 then 1
                  else of_int (converted_size s) / of_int (original_size s))"
  by (simp add: ratio_def py_truediv_def)

lemma top3_lines_value:
  "top3_lines xs = Inr (map (\<lambda>s. (s, if original_size s = 0 then 1
                  else of_int (converted_size s) / of_int (original_size s))) xs)"
  by (induction xs) (simp_all add: ratio_value)

lemma print_summary_value:
  "print_summary stats =
     Inr \<lparr>files_converted = length stats,
          original_total = sum_list (map original_size stats),
          converted_total = sum_list (map converted_size stats),
          change_sign = sign stats,
          change_color = color stats,
          change_size = \<bar>delta stats\<bar>,
          top3_report = (if stats = [] then None
             else Some (map (\<lambda>s. (s, if original_size s = 0 then 1
                  else of_int (converted_size s) / of_int (original_size s))) (top3 stats)))\<rparr>"
  by (simp add: print_summary_def Let_def top3_lines_value total_orig_def total_conv_def py_sum_sum_list)

lemma delta_sum_list:
  "delta stats = sum_list (map converted_size stats) - sum_list (map original_size stats)"
  by (simp add: delta_def total_orig_def total_conv_def py_sum_sum_list)

lemma arrows_differ: "arrow_up \<noteq> arrow_down"
  by (simp add: arrow_up_def arrow_down_def)

lemma colors_differ: "Fore_RED \<noteq> Fore_GREEN"
  by (simp add: Fore_RED_def Fore_GREEN_def)

lemma top3_demo_stats:
  "top3 demo_stats =
     [\<lparr>filename = ''e.icns'', original_size = 10, converted_size = 9\<rparr>,
      \<lparr>filename = ''b.icns'', original_size = 0, converted_size = 7\<rparr>,
      \<lparr>filename = ''d.icns'', original_size = 14, converted_size = 7\<rparr>]"
  by (simp add: top3_def py_sorted_def demo_stats_def)

section \<open>The summary\<close>

text \<open>
  C1. For a non-empty batch outcome \<open>stats\<close>, \<open>print_summary\<close> returns a report whose
  top-3 lines are, in order, the first three elements of a list \<open>S\<close> that is a stable
  descending sort of \<open>stats\<close> by \<open>converted_size\<close>: \<open>S\<close> has the same elements as
  \<open>stats\<close>, it is in descending order of \<open>converted_size\<close>, and for every size \<open>k\<close> the
  results of size \<open>k\<close> stand in \<open>S\<close> in the order they have in \<open>stats\<close>, the order in
  which the files were processed. There are \<open>min 3 (length stats)\<close> lines, and no result
  left out is larger than a result reported.
\<close>

theorem top3_stable_descending:
  assumes "stats \<noteq> []"
  shows "\<exists>r ls S. print_summary stats = Inr r \<and> top3_report r = Some ls
           \<and> map fst ls = take 3 S
           \<and> length ls = min 3 (length stats)
           \<and> mset S = mset stats
           \<and> sorted_wrt (\<lambda>a b. converted_size a \<ge> converted_size b) S
           \<and> (\<forall>k. filter (\<lambda>s. converted_size s = k) S
                    = filter (\<lambda>s. converted_size s = k) stats)
           \<and> (\<forall>a \<in> set (take 3 S). \<forall>b \<in> set (drop 3 S).
                    converted_size b \<le> converted_size a)"
proof -
  define S where "S = py_sorted converted_size True stats"
  define ls where "ls = map (\<lambda>s. (s, if original_size s = 0 then (1::rat)
                  else of_int (converted_size s) / of_int (original_size s))) (top3 stats)"
  have m: "mset S = mset stats"
    by (simp add: S_def mset_py_sorted)
  have srt: "sorted_wrt (\<lambda>a b. converted_size a \<ge> converted_size b) S"
    unfolding S_def by (rule py_sorted_reverse_sorted)
  have stab: "\<forall>k. filter (\<lambda>s. converted_size s = k) S
                    = filter (\<lambda>s. converted_size s = k) stats"
    by (simp add: S_def py_sorted_stable)
  have len: "length S = length stats"
    using m by (metis size_mset)
  have "sorted_wrt (\<lambda>a b. converted_size a \<ge> converted_size b) (take 3 S @ drop 3 S)"
    using srt by simp
  then have cut: "\<forall>a \<in> set (take 3 S). \<forall>b \<in> set (drop 3 S).
                    converted_size b \<le> converted_size a"
    unfolding sorted_wrt_append by blast
  have fst_ls: "map fst ls = take 3 S"
    by (simp add: ls_def top3_def S_def comp_def)
  have len_ls: "length ls = min 3 (length stats)"
    using len by (simp add: ls_def top3_def S_def)
  obtain r where r: "print_summary stats = Inr r" "top3_report r = Some ls"
    using assms by (simp add: print_summary_value ls_def)
  show ?thesis
    using r fst_ls len_ls m srt stab cut by blast
qed

text \<open>
  The theorem at \<open>demo_stats\<close>, of sizes 5, 7, 5, 7, 9: the report is e, b, d, with b
  before d as they were processed.
\<close>

theorem top3_stable_descending_witness:
  "demo_stats \<noteq> []
   \<and> (\<exists>r ls S. print_summary demo_stats = Inr r \<and> top3_report r = Some ls
           \<and> map fst ls = take 3 S
           \<and> length ls = min 3 (length demo_stats)
           \<and> mset S = mset demo_stats
           \<and> sorted_wrt (\<lambda>a b. converted_size a \<ge> converted_size b) S
           \<and> (\<forall>k. filter (\<lambda>s. converted_size s = k) S
                    = filter (\<lambda>s. converted_size s = k) demo_stats)
           \<and> (\<forall>a \<in> set (take 3 S). \<forall>b \<in> set (drop 3 S).
                    converted_size b \<le> converted_size a))
   \<and> map filename (top3 demo_stats) = [''e.icns'', ''b.icns'', ''d.icns'']"
proof -
  have ne: "demo_stats \<noteq> []"
    by (simp add: demo_stats_def)
  have names: "map filename (top3 demo_stats) = [''e.icns'', ''b.icns'', ''d.icns'']"
    by (simp add: top3_demo_stats)
  from top3_stable_descending [OF ne] ne names show ?thesis
    by (intro conjI)
qed

text \<open>
  C5. For every batch outcome, \<open>print_summary\<close> returns a report: its count is the number
  of results, its original total is the sum of the \<open>original_size\<close> fields, its converted
  total is the sum of the \<open>converted_size\<close> fields, and the change it shows, the
  magnitude \<open>abs(delta)\<close> read with the sign that the arrow stands for, is the converted
  total minus the original total.
\<close>

theorem summary_totals:
  "\<exists>r. print_summary stats = Inr r
      \<and> files_converted r = length stats
      \<and> original_total r = (\<Sum>s\<leftarrow>stats. original_size s)
      \<and> converted_total r = (\<Sum>s\<leftarrow>stats. converted_size s)
      \<and> (if change_sign r = arrow_up then change_size r else - change_size r)
          = converted_total r - original_total r"
  by (simp add: print_summary_value sign_def delta_sum_list arrows_differ arrows_differ [symmetric])

text \<open>
  The scenario of the specification: originals 100 and 50 converting to 120 and 40 give
  the totals 150 and 160 and a change of 10 upwards.
\<close>

theorem summary_totals_witness:
  "\<exists>r. print_summary [\<lparr>filename = ''a.icns'', original_size = 100, converted_size = 120\<rparr>,
                       \<lparr>filename = ''b.icns'', original_size = 50, converted_size = 40\<rparr>] = Inr r
      \<and> files_converted r = 2
      \<and> original_total r = 150
      \<and> converted_total r = 160
      \<and> change_sign r = arrow_up \<and> change_size r = 10"
  using summary_totals [of "[\<lparr>filename = ''a.icns'', original_size = 100, converted_size = 120\<rparr>,
                       \<lparr>filename = ''b.icns'', original_size = 50, converted_size = 40\<rparr>]"]
  by (auto simp: print_summary_value sign_def delta_sum_list)

text \<open>
  C10. In the report, the arrow is the up arrow exactly when the converted total minus the
  original total is strictly positive, and so is the red colour; otherwise the arrow is
  the down arrow. In particular a change of exactly zero is shown with the down arrow.
\<close>

theorem change_indicator:
  "\<exists>r. print_summary stats = Inr r
      \<and> (change_sign r = arrow_up \<longleftrightarrow> 0 < converted_total r - original_total r)
      \<and> (change_sign r = arrow_down \<longleftrightarrow> converted_total r - original_total r \<le> 0)
      \<and> (change_color r = Fore_RED \<longleftrightarrow> 0 < converted_total r - original_total r)
      \<and> (converted_total r - original_total r = 0 \<longrightarrow> change_sign r = arrow_down)"
  by (simp add: print_summary_value sign_def color_def delta_sum_list arrows_differ
        arrows_differ [symmetric] colors_differ colors_differ [symmetric])

text \<open>The theorem at a batch whose totals are both 150.\<close>

theorem change_indicator_witness:
  "\<exists>r. print_summary [\<lparr>filename = ''a.icns'', original_size = 100, converted_size = 120\<rparr>,
                       \<lparr>filename = ''b.icns'', original_size = 50, converted_size = 30\<rparr>] = Inr r
      \<and> converted_total r - original_total r = 0
      \<and> change_sign r = arrow_down"
  using change_indicator [of "[\<lparr>filename = ''a.icns'', original_size = 100, converted_size = 120\<rparr>,
                       \<lparr>filename = ''b.icns'', original_size = 50, converted_size = 30\<rparr>]"]
  by (auto simp: print_summary_value)

text \<open>
  C4. The ratio of a result is \<open>converted_size / original_size\<close> when \<open>original_size\<close>
  is not zero and exactly 1 when it is zero. The division is reached only with a non-zero
  divisor, so the ratio never raises, and \<open>print_summary\<close> returns a report whose top-3
  lines carry these ratios, for every batch outcome.
\<close>

theorem ratio_guard:
  "ratio s = Inr (if original_size s = 0 then 1
                  else of_int (converted_size s) / of_int (original_size s))
   \<and> ratio s = (if original_size s = 0 then Inr 1
                 else py_truediv (converted_size s) (original_size s))
   \<and> (\<forall>e. ratio s \<noteq> Inl e)
   \<and> (\<exists>r. print_summary stats = Inr r
        \<and> top3_report r =
            (if stats = [] then None
             else Some (map (\<lambda>s. (s, if original_size s = 0 then 1
                           else of_int (converted_size s) / of_int (original_size s)))
                        (top3 stats))))"
  by (simp add: ratio_value print_summary_value py_truediv_def)

text \<open>The ratios of \<open>demo_stats\<close>, whose second result has a zero original size.\<close>

theorem ratio_guard_witness:
  "ratio \<lparr>filename = ''b.icns'', original_size = 0, converted_size = 7\<rparr> = Inr 1
   \<and> ratio \<lparr>filename = ''d.icns'', original_size = 14, converted_size = 7\<rparr> = Inr (1 / 2)
   \<and> (\<exists>r. print_summary demo_stats = Inr r
        \<and> map snd (the (top3_report r)) = [9 / 10, 1, 1 / 2])"
  using ratio_guard [of "\<lparr>filename = ''b.icns'', original_size = 0, converted_size = 7\<rparr>" demo_stats]
    ratio_guard [of "\<lparr>filename = ''d.icns'', original_size = 14, converted_size = 7\<rparr>" demo_stats]
  by (simp add: top3_demo_stats print_summary_value) (simp add: demo_stats_def)

section \<open>Discovery\<close>

lemma lower_char_dot: "lower_char c = CHR ''.'' \<longleftrightarrow> c = CHR ''.''"
  by (simp add: lower_char_def)

lemma rfind_absent: "c \<notin> set xs \<Longrightarrow> rfind xs c = -1"
  by (induction xs) (auto simp: Let_def)

lemma rfind_last: "c \<notin> set ys \<Longrightarrow> rfind (xs @ c # ys) c = int (length xs)"
  by (induction xs) (auto simp: Let_def rfind_absent)

lemma lower_icns_shape:
  assumes "lower ext = ''.icns''"
  shows "\<exists>ys. ext = CHR ''.'' # ys \<and> CHR ''.'' \<notin> set ys \<and> length ys = 4"
proof -
  from assms obtain c0 c1 c2 c3 c4 where ext: "ext = [c0, c1, c2, c3, c4]"
    by (auto simp: lower_def map_eq_Cons_conv)
  with assms have l: "lower_char c0 = CHR ''.''" "lower_char c1 = CHR ''i''"
    "lower_char c2 = CHR ''c''" "lower_char c3 = CHR ''n''" "lower_char c4 = CHR ''s''"
    by (simp_all add: lower_def)
  have d: "lower_char (CHR ''.'') = CHR ''.''"
    by (simp add: lower_char_dot)
  from l have "c0 = CHR ''.''"
    by (simp add: lower_char_dot)
  moreover from l d have "c1 \<noteq> CHR ''.''" "c2 \<noteq> CHR ''.''" "c3 \<noteq> CHR ''.''" "c4 \<noteq> CHR ''.''"
    by auto
  ultimately show ?thesis
    using ext by simp
qed

lemma suffix_icns_iff:
  "lower (suffix_of nm) = ''.icns'' \<longleftrightarrow>
     5 < length nm \<and> lower (drop (length nm - 5) nm) = ''.icns''"
proof
  assume a: "lower (suffix_of nm) = ''.icns''"
  define i where "i = rfind nm (CHR ''.'')"
  from a have ne: "suffix_of nm \<noteq> []"
    by (auto simp: lower_def)
  then have i: "0 < i" "i < int (length nm) - 1" and s: "suffix_of nm = drop (nat i) nm"
    by (auto simp: suffix_of_def Let_def i_def split: if_splits)
  from a have "length (lower (suffix_of nm)) = 5"
    by simp
  then have "length (suffix_of nm) = 5"
    by (simp add: lower_def)
  with s i have "nat i = length nm - 5" "5 < length nm"
    by auto
  with a s show "5 < length nm \<and> lower (drop (length nm - 5) nm) = ''.icns''"
    by simp
next
  assume b: "5 < length nm \<and> lower (drop (length nm - 5) nm) = ''.icns''"
  then obtain ys where ys: "drop (length nm - 5) nm = CHR ''.'' # ys" "CHR ''.'' \<notin> set ys"
      "length ys = 4"
    using lower_icns_shape by blast
  have nm: "nm = take (length nm - 5) nm @ CHR ''.'' # ys"
    using ys(1) by (metis append_take_drop_id)
  have "rfind (take (length nm - 5) nm @ CHR ''.'' # ys) (CHR ''.'') = int (length (take (length nm - 5) nm))"
    using ys(2) by (rule rfind_last)
  with nm have r: "rfind nm (CHR ''.'') = int (length nm - 5)"
    by simp
  have n: "nat (int (length nm) - 5) = length nm - 5"
    by linarith
  from b r n have "suffix_of nm = drop (length nm - 5) nm"
    by (auto simp: suffix_of_def Let_def)
  with b show "lower (suffix_of nm) = ''.icns''"
    by simp
qed

text \<open>
  C7. The list bound to \<open>files\<close> is the directory listing filtered, in its order: an
  entry is selected exactly when it is a regular file and the lower-cased suffix of its
  name is \<open>.icns\<close>, which holds exactly when the name has more than five characters and
  its last five, lower-cased, are \<open>.icns\<close>. Every other entry, a directory or a file
  with another extension, is left out.
\<close>

theorem icns_files_selects:
  "icns_files es =
     filter (\<lambda>f. is_file f \<and> 5 < length (name f)
                  \<and> lower (drop (length (name f) - 5) (name f)) = ''.icns'') es
   \<and> (f \<in> set (icns_files es) \<longleftrightarrow>
          f \<in> set es \<and> is_file f \<and> lower (suffix_of (name f)) = ''.icns'')
   \<and> (f \<in> set es \<and> (\<not> is_file f \<or> lower (suffix_of (name f)) \<noteq> ''.icns'')
          \<longrightarrow> f \<notin> set (icns_files es))"
  by (auto simp: icns_files_def suffix_icns_iff)

lemma icns_files_demo_entries:
  "icns_files demo_entries =
     [\<lparr>name = ''a.icns'', is_file = True\<rparr>, \<lparr>name = ''B.v2.IcNs'', is_file = True\<rparr>]"
  by (simp add: icns_files_def demo_entries_def suffix_of_def Let_def lower_def lower_char_def)

text \<open>
  The theorem at \<open>demo_entries\<close>: the directory \<open>dir.icns\<close> and the file \<open>notes.txt\<close> are
  left out, and the two icons are selected whatever the case of their extension.
\<close>

theorem icns_files_selects_witness:
  "\<lparr>name = ''dir.icns'', is_file = False\<rparr> \<in> set demo_entries
   \<and> \<lparr>name = ''dir.icns'', is_file = False\<rparr> \<notin> set (icns_files demo_entries)
   \<and> \<lparr>name = ''notes.txt'', is_file = True\<rparr> \<in> set demo_entries
   \<and> \<lparr>name = ''notes.txt'', is_file = True\<rparr> \<notin> set (icns_files demo_entries)
   \<and> map name (icns_files demo_entries) = [''a.icns'', ''B.v2.IcNs'']"
proof -
  let ?d = "\<lparr>name = ''dir.icns'', is_file = False\<rparr>"
  let ?n = "\<lparr>name = ''notes.txt'', is_file = True\<rparr>"
  have d: "?d \<in> set demo_entries" and n: "?n \<in> set demo_entries"
    by (simp_all add: demo_entries_def)
  have nd: "\<not> is_file ?d"
    by simp
  have nn: "lower (suffix_of (name ?n)) \<noteq> ''.icns''"
    by (simp add: suffix_of_def Let_def lower_def lower_char_def)
  from icns_files_selects [of demo_entries ?d] d nd
  have 1: "?d \<notin> set (icns_files demo_entries)"
    by blast
  from icns_files_selects [of demo_entries ?n] n nn
  have 2: "?n \<notin> set (icns_files demo_entries)"
    by blast
  have 3: "map name (icns_files demo_entries) = [''a.icns'', ''B.v2.IcNs'']"
    by (simp add: icns_files_demo_entries)
  from d n 1 2 3 show ?thesis
    by (intro conjI)
qed

section \<open>The conversion of one file\<close>

lemmas demo_simps =
  demo_world_def demo_fs_def input_dir_def output_dir_def stem_def suffix_of_def Let_def
  convert_one_def save_png_def normalize_def

text \<open>
  C6. For an image that was decoded (the size was read, the file opened and loaded): when
  its mode is RGB or RGBA, the image is left as it is and is the one that is saved; when
  its mode is neither, it is converted to RGBA and the converted image is the one that is
  saved (and when the conversion raises, nothing is saved). The image given to
  \<open>save_png\<close> is the one given to the encoder \<open>image_save\<close>, on the output path.
\<close>

theorem normalize_before_encoding:
  assumes "stat_size w fs (input_dir, nm) = Inr n"
    and "image_open w fs (input_dir, nm) = Inr img0"
    and "image_load w img0 = Inr img"
  shows "(image_mode w img = ''RGB'' \<or> image_mode w img = ''RGBA'' \<longrightarrow>
            normalize w img = Inr img \<and> convert_one w fs nm = save_png w fs nm n img)
       \<and> (image_mode w img \<noteq> ''RGB'' \<and> image_mode w img \<noteq> ''RGBA'' \<longrightarrow>
            normalize w img = image_convert w img ''RGBA''
            \<and> (\<forall>img'. image_convert w img ''RGBA'' = Inr img' \<longrightarrow>
                   convert_one w fs nm = save_png w fs nm n img')
            \<and> (\<forall>e. image_convert w img ''RGBA'' = Inl e \<longrightarrow>
                   convert_one w fs nm = (fs, Inl e)))
       \<and> (\<forall>x. fst (save_png w fs nm n x)
                = fst (image_save w fs (output_dir, stem nm @ ''.png'') x))"
  using assms
  by (auto simp: convert_one_def normalize_def save_png_def Let_def
           split: prod.splits option.splits sum.splits)

text \<open>
  The theorem in \<open>demo_world\<close>: \<open>a.icns\<close> has the palette mode P and is saved as RGBA,
  \<open>c.icns\<close> is RGB and is saved unchanged. In \<open>demo_world_no_convert\<close> the conversion
  of \<open>a.icns\<close> raises, and nothing is saved.
\<close>

theorem normalize_before_encoding_witness:
  "(stat_size demo_world demo_fs (input_dir, ''a.icns'') = Inr 100
   \<and> image_open demo_world demo_fs (input_dir, ''a.icns'') = Inr (''P'', 100)
   \<and> image_load demo_world (''P'', 100) = Inr (''P'', 100)
   \<and> image_mode demo_world (''P'', 100) \<noteq> ''RGB''
   \<and> image_mode demo_world (''P'', 100) \<noteq> ''RGBA''
   \<and> image_convert demo_world (''P'', 100) ''RGBA'' = Inr (''RGBA'', 100)
   \<and> convert_one demo_world demo_fs ''a.icns''
       = save_png demo_world demo_fs ''a.icns'' 100 (''RGBA'', 100)
   \<and> stat_size demo_world demo_fs (input_dir, ''c.icns'') = Inr 30
   \<and> image_open demo_world demo_fs (input_dir, ''c.icns'') = Inr (''RGB'', 30)
   \<and> image_load demo_world (''RGB'', 30) = Inr (''RGB'', 30)
   \<and> image_mode demo_world (''RGB'', 30) = ''RGB''
   \<and> convert_one demo_world demo_fs ''c.icns''
       = save_png demo_world demo_fs ''c.icns'' 30 (''RGB'', 30))
   \<and> (stat_size demo_world_no_convert demo_fs (input_dir, ''a.icns'') = Inr 100
   \<and> image_open demo_world_no_convert demo_fs (input_dir, ''a.icns'') = Inr (''P'', 100)
   \<and> image_load demo_world_no_convert (''P'', 100) = Inr (''P'', 100)
   \<and> image_mode demo_world_no_convert (''P'', 100) \<noteq> ''RGB''
   \<and> image_mode demo_world_no_convert (''P'', 100) \<noteq> ''RGBA''
   \<and> image_convert demo_world_no_convert (''P'', 100) ''RGBA''
       = Inl (Exception ''conversion not supported'')
   \<and> convert_one demo_world_no_convert demo_fs ''a.icns''
       = (demo_fs, Inl (Exception ''conversion not supported'')))"
proof -
  have first: "stat_size demo_world demo_fs (input_dir, ''a.icns'') = Inr 100
   \<and> image_open demo_world demo_fs (input_dir, ''a.icns'') = Inr (''P'', 100)
   \<and> image_load demo_world (''P'', 100) = Inr (''P'', 100)
   \<and> image_mode demo_world (''P'', 100) \<noteq> ''RGB''
   \<and> image_mode demo_world (''P'', 100) \<noteq> ''RGBA''
   \<and> image_convert demo_world (''P'', 100) ''RGBA'' = Inr (''RGBA'', 100)
   \<and> convert_one demo_world demo_fs ''a.icns''
       = save_png demo_world demo_fs ''a.icns'' 100 (''RGBA'', 100)
   \<and> stat_size demo_world demo_fs (input_dir, ''c.icns'') = Inr 30
   \<and> image_open demo_world demo_fs (input_dir, ''c.icns'') = Inr (''RGB'', 30)
   \<and> image_load demo_world (''RGB'', 30) = Inr (''RGB'', 30)
   \<and> image_mode demo_world (''RGB'', 30) = ''RGB''
   \<and> convert_one demo_world demo_fs ''c.icns''
       = save_png demo_world demo_fs ''c.icns'' 30 (''RGB'', 30)"
  proof -
    have a: "stat_size demo_world demo_fs (input_dir, ''a.icns'') = Inr 100"
      "image_open demo_world demo_fs (input_dir, ''a.icns'') = Inr (''P'', 100)"
      "image_load demo_world (''P'', 100) = Inr (''P'', 100)"
      by (simp_all add: demo_world_def demo_fs_def input_dir_def)
    have am: "image_mode demo_world (''P'', 100) \<noteq> ''RGB''"
      "image_mode demo_world (''P'', 100) \<noteq> ''RGBA''"
      "image_convert demo_world (''P'', 100) ''RGBA'' = Inr (''RGBA'', 100)"
      by (simp_all add: demo_world_def)
    have c: "stat_size demo_world demo_fs (input_dir, ''c.icns'') = Inr 30"
      "image_open demo_world demo_fs (input_dir, ''c.icns'') = Inr (''RGB'', 30)"
      "image_load demo_world (''RGB'', 30) = Inr (''RGB'', 30)"
      by (simp_all add: demo_world_def demo_fs_def input_dir_def)
    have cm: "image_mode demo_world (''RGB'', 30) = ''RGB''"
      by (simp add: demo_world_def)
    from normalize_before_encoding [OF a] am
    have 1: "convert_one demo_world demo_fs ''a.icns''
         = save_png demo_world demo_fs ''a.icns'' 100 (''RGBA'', 100)"
      by blast
    from normalize_before_encoding [OF c] cm
    have 2: "convert_one demo_world demo_fs ''c.icns''
         = save_png demo_world demo_fs ''c.icns'' 30 (''RGB'', 30)"
      by blast
    from a am c cm 1 2 show ?thesis
      by (intro conjI)
  qed
  have second: "stat_size demo_world_no_convert demo_fs (input_dir, ''a.icns'') = Inr 100
   \<and> image_open demo_world_no_convert demo_fs (input_dir, ''a.icns'') = Inr (''P'', 100)
   \<and> image_load demo_world_no_convert (''P'', 100) = Inr (''P'', 100)
   \<and> image_mode demo_world_no_convert (''P'', 100) \<noteq> ''RGB''
   \<and> image_mode demo_world_no_convert (''P'', 100) \<noteq> ''RGBA''
   \<and> image_convert demo_world_no_convert (''P'', 100) ''RGBA''
       = Inl (Exception ''conversion not supported'')
   \<and> convert_one demo_world_no_convert demo_fs ''a.icns''
       = (demo_fs, Inl (Exception ''conversion not supported''))"
  proof -
    have a: "stat_size demo_world_no_convert demo_fs (input_dir, ''a.icns'') = Inr 100"
      "image_open demo_world_no_convert demo_fs (input_dir, ''a.icns'') = Inr (''P'', 100)"
      "image_load demo_world_no_convert (''P'', 100) = Inr (''P'', 100)"
      by (simp_all add: demo_world_no_convert_def demo_world_def demo_fs_def input_dir_def)
    have am: "image_mode demo_world_no_convert (''P'', 100) \<noteq> ''RGB''"
      "image_mode demo_world_no_convert (''P'', 100) \<noteq> ''RGBA''"
      "image_convert demo_world_no_convert (''P'', 100) ''RGBA''
         = Inl (Exception ''conversion not supported'')"
      by (simp_all add: demo_world_no_convert_def demo_world_def)
    from normalize_before_encoding [OF a] am
    have 3: "convert_one demo_world_no_convert demo_fs ''a.icns''
         = (demo_fs, Inl (Exception ''conversion not supported''))"
      by blast
    from a am 3 show ?thesis
      by (intro conjI)
  qed
  from first second show ?thesis
    by (rule conjI)
qed


section \<open>The loop over the files\<close>

lemma length_outcomes: "length (outcomes w fs files) = length files"
  by (induction files arbitrary: fs) simp_all

lemma length_successes: "length (successes os) + length (filter isl os) = length os"
  by (induction os rule: successes.induct) simp_all

lemma convert_one_result:
  assumes "convert_one w fs nm = (fs', Inr r)"
  shows "filename r = nm
       \<and> stat_size w fs (input_dir, nm) = Inr (original_size r)
       \<and> stat_size w fs' (output_dir, stem nm @ ''.png'') = Inr (converted_size r)"
  using assms
  by (auto simp: convert_one_def save_png_def Let_def
           split: sum.splits prod.splits option.splits)

lemma convert_loop_never_raises_error:
  "convert_loop w files stats st \<noteq> Inl (Exception e)"
proof (induction files arbitrary: stats st)
  case Nil
  show ?case by simp
next
  case (Cons fp rest)
  show ?case
    using Cons.IH by (simp split: prod.splits sum.splits py_exn.splits)
qed

lemma convert_loop_returns:
  assumes "convert_loop w files stats st = Inr (stats', st')"
  shows "stats' = stats @ successes (outcomes w (filesys st) files)
       \<and> stdout st' = stdout st @ loop_events files (outcomes w (filesys st) files)
       \<and> filesys st' = fs_after w (filesys st) files
       \<and> stdin st' = stdin st
       \<and> (\<forall>x \<in> set (outcomes w (filesys st) files). \<not> escapes x)"
  using assms
proof (induction files arbitrary: stats st)
  case Nil
  then show ?case by simp
next
  case (Cons fp rest)
  obtain fs1 r where c: "convert_one w (filesys st) (name fp) = (fs1, r)"
    by (cases "convert_one w (filesys st) (name fp)")
  show ?case
  proof (cases r)
    case (Inr res)
    with c Cons.prems have
      "convert_loop w rest (stats @ [res])
         (py_print (Description ('' '' @ take 25 (stem (name fp)) @ ''.png''))
            (st\<lparr>filesys := fs1\<rparr>)) = Inr (stats', st')"
      by simp
    from Cons.IH [OF this] c Inr show ?thesis
      by (simp add: py_print_def)
  next
    case (Inl x)
    show ?thesis
    proof (cases x)
      case (Exception e)
      with c Inl Cons.prems have
        "convert_loop w rest stats (py_print (ErrorLine (name fp) e) (st\<lparr>filesys := fs1\<rparr>))
           = Inr (stats', st')"
        by simp
      from Cons.IH [OF this] c Inl Exception show ?thesis
        by (simp add: py_print_def)
    next
      case (SystemExit n)
      with c Inl Cons.prems show ?thesis by simp
    next
      case KeyboardInterrupt
      with c Inl Cons.prems show ?thesis by simp
    qed
  qed
qed

lemma convert_loop_completes:
  assumes "\<forall>x \<in> set (outcomes w (filesys st) files). \<not> escapes x"
  shows "\<exists>st'. convert_loop w files stats st = Inr (stats @ successes (outcomes w (filesys st) files), st')"
  using assms
proof (induction files arbitrary: stats st)
  case Nil
  then show ?case by simp
next
  case (Cons fp rest)
  obtain fs1 r where c: "convert_one w (filesys st) (name fp) = (fs1, r)"
    by (cases "convert_one w (filesys st) (name fp)")
  from Cons.prems c have ne: "\<not> escapes r"
    and rest: "\<forall>x \<in> set (outcomes w fs1 rest). \<not> escapes x"
    by simp_all
  show ?case
  proof (cases r)
    case (Inr res)
    let ?st = "py_print (Description ('' '' @ take 25 (stem (name fp)) @ ''.png''))
            (st\<lparr>filesys := fs1\<rparr>)"
    from rest have "\<forall>x \<in> set (outcomes w (filesys ?st) rest). \<not> escapes x"
      by (simp add: py_print_def)
    from Cons.IH [OF this, of "stats @ [res]"] c Inr show ?thesis
      by (simp add: py_print_def)
  next
    case (Inl x)
    with ne obtain e where x: "x = Exception e"
      by (cases x) simp_all
    let ?st = "py_print (ErrorLine (name fp) e) (st\<lparr>filesys := fs1\<rparr>)"
    from rest have "\<forall>x \<in> set (outcomes w (filesys ?st) rest). \<not> escapes x"
      by (simp add: py_print_def)
    from Cons.IH [OF this, of stats] c Inl x show ?thesis
      by (simp add: py_print_def)
  qed
qed

lemma loop_events_error:
  assumes "\<forall>x \<in> set os. \<not> escapes x" and "length os = length files"
    and "i < length files" and "os ! i = Inl (Exception e)"
  shows "ErrorLine (name (files ! i)) e \<in> set (loop_events files os)"
  using assms
proof (induction files os arbitrary: i rule: loop_events.induct)
  case (1 fp fps r os)
  then show ?case by (cases i) auto
next
  case (2 fp fps e' os)
  then show ?case by (cases i) auto
qed auto

lemma outcomes_names:
  assumes "i < length files" and "outcomes w fs files ! i = Inr r"
  shows "filename r = name (files ! i)"
  using assms
proof (induction files arbitrary: fs i)
  case Nil
  then show ?case by simp
next
  case (Cons fp rest)
  show ?case
  proof (cases i)
    case 0
    with Cons.prems have "snd (convert_one w fs (name fp)) = Inr r"
      by simp
    then have "convert_one w fs (name fp) = (fst (convert_one w fs (name fp)), Inr r)"
      by (metis prod.collapse)
    from convert_one_result [OF this] 0 show ?thesis
      by simp
  next
    case (Suc j)
    with Cons.prems Cons.IH [of j "fst (convert_one w fs (name fp))"] show ?thesis
      by simp
  qed
qed

lemma successes_sizes:
  assumes "r \<in> set (successes (outcomes w fs files))"
  shows "\<exists>fs0 fs1. stat_size w fs0 (input_dir, filename r) = Inr (original_size r)
           \<and> stat_size w fs1 (output_dir, stem (filename r) @ ''.png'') = Inr (converted_size r)"
  using assms
proof (induction files arbitrary: fs)
  case Nil
  then show ?case by simp
next
  case (Cons fp rest)
  obtain fs1 x where c: "convert_one w fs (name fp) = (fs1, x)"
    by (cases "convert_one w fs (name fp)")
  show ?case
  proof (cases x)
    case (Inl e)
    with c Cons.prems have "r \<in> set (successes (outcomes w fs1 rest))"
      by simp
    then show ?thesis by (rule Cons.IH)
  next
    case (Inr res)
    with c Cons.prems have "r = res \<or> r \<in> set (successes (outcomes w fs1 rest))"
      by auto
    then show ?thesis
    proof
      assume "r = res"
      with c Inr have "convert_one w fs (name fp) = (fs1, Inr r)"
        by simp
      from convert_one_result [OF this] show ?thesis
        by metis
    next
      assume "r \<in> set (successes (outcomes w fs1 rest))"
      then show ?thesis by (rule Cons.IH)
    qed
  qed
qed



lemma demo_convert_files:
  "convert_files demo_world (demo_state demo_fs ls) =
     Inr (Some demo_outcome,
          \<lparr>filesys = ((''output'', ''c.png''), Png ''RGB'' 130)
                       # ((''output'', ''a.png''), Png ''RGBA'' 200) # demo_fs,
           stdin = ls,
           stdout = [Found 3, Description '' a.png'',
                     ErrorLine ''b.ICNS'' ''cannot identify image file'',
                     Description '' c.png'']\<rparr>)"
  by (simp add: demo_simps convert_files_def icns_files_def lower_def lower_char_def
       demo_state_def py_print_def demo_outcome_def)


text \<open>
  C2. When \<open>convert_files\<close> returns a batch outcome \<open>stats\<close>, the directories were made
  and the input directory was listed, and with \<open>files\<close> the discovered files and \<open>os\<close>
  the outcomes of the \<open>try\<close> block for each of them in turn: \<open>stats\<close> has at most as many
  results as there are files; it holds exactly the dicts of the files whose block ended
  normally, in order; every file either has its dict there, under its name, or raised an
  error that was caught and reported under its name; and both sizes of every result are
  sizes that \<open>stat()\<close> returned, so no dict is appended without a size.
\<close>

theorem outcome_bounded:
  assumes "convert_files w st = Inr (Some stats, st')"
  shows "\<exists>fs1 fs2 es.
           mkdir w (filesys st) input_dir = Inr fs1
         \<and> mkdir w fs1 output_dir = Inr fs2
         \<and> iterdir w fs2 input_dir = Inr es
         \<and> (let files = icns_files es; os = outcomes w fs2 files
            in length stats \<le> length files
             \<and> length os = length files
             \<and> stats = successes os
             \<and> length stats + length (filter isl os) = length files
             \<and> (\<forall>i<length files.
                    (\<exists>r. os ! i = Inr r \<and> filename r = name (files ! i))
                  \<or> (\<exists>e. os ! i = Inl (Exception e)
                         \<and> ErrorLine (name (files ! i)) e \<in> set (stdout st')))
             \<and> (\<forall>r\<in>set stats. \<exists>fs fs'.
                    stat_size w fs (input_dir, filename r) = Inr (original_size r)
                  \<and> stat_size w fs' (output_dir, stem (filename r) @ ''.png'')
                      = Inr (converted_size r)))"
proof -
  from assms obtain fs1 fs2 es where
    d: "mkdir w (filesys st) input_dir = Inr fs1" "mkdir w fs1 output_dir = Inr fs2"
       "iterdir w fs2 input_dir = Inr es"
    and ne: "icns_files es \<noteq> []"
    and run: "convert_loop w (icns_files es) []
                (py_print (Found (length (icns_files es))) (st\<lparr>filesys := fs2\<rparr>))
              = Inr (stats, st')"
    by (auto simp: convert_files_def split: sum.splits if_splits prod.splits)
  define files where "files = icns_files es"
  define os where "os = outcomes w fs2 files"
  from convert_loop_returns [OF run]
  have st: "stats = successes os"
    and out: "stdout st' = (stdout st @ [Found (length files)]) @ loop_events files os"
    and esc: "\<forall>x \<in> set os. \<not> escapes x"
    by (simp_all add: py_print_def files_def os_def)
  have len: "length os = length files"
    by (simp add: os_def length_outcomes)
  have cnt: "length stats + length (filter isl os) = length files"
    using length_successes [of os] st len by simp
  have each: "(\<exists>r. os ! i = Inr r \<and> filename r = name (files ! i))
            \<or> (\<exists>e. os ! i = Inl (Exception e)
                   \<and> ErrorLine (name (files ! i)) e \<in> set (stdout st'))"
    if i: "i < length files" for i
  proof (cases "os ! i")
    case (Inr r)
    with i outcomes_names [of i files w fs2 r] show ?thesis
      by (simp add: os_def)
  next
    case (Inl x)
    from i len esc have "\<not> escapes (os ! i)"
      by simp
    with Inl obtain e where x: "x = Exception e"
      by (cases x) simp_all
    from loop_events_error [OF esc len i] Inl x
    have "ErrorLine (name (files ! i)) e \<in> set (loop_events files os)"
      by simp
    with Inl x out show ?thesis
      by simp
  qed
  have sizes: "\<exists>fs fs'.
                    stat_size w fs (input_dir, filename r) = Inr (original_size r)
                  \<and> stat_size w fs' (output_dir, stem (filename r) @ ''.png'')
                      = Inr (converted_size r)"
    if "r \<in> set stats" for r
    using that st successes_sizes [of r w fs2 files] by (simp add: os_def)
  from cnt have le: "length stats \<le> length files"
    by simp
  have A: "\<forall>i<length files.
                    (\<exists>r. os ! i = Inr r \<and> filename r = name (files ! i))
                  \<or> (\<exists>e. os ! i = Inl (Exception e)
                         \<and> ErrorLine (name (files ! i)) e \<in> set (stdout st'))"
    using each by blast
  have B: "\<forall>r\<in>set stats. \<exists>fs fs'.
                    stat_size w fs (input_dir, filename r) = Inr (original_size r)
                  \<and> stat_size w fs' (output_dir, stem (filename r) @ ''.png'')
                      = Inr (converted_size r)"
    using sizes by blast
  from le len st cnt A B
  have "let files = icns_files es; os = outcomes w fs2 files
            in length stats \<le> length files
             \<and> length os = length files
             \<and> stats = successes os
             \<and> length stats + length (filter isl os) = length files
             \<and> (\<forall>i<length files.
                    (\<exists>r. os ! i = Inr r \<and> filename r = name (files ! i))
                  \<or> (\<exists>e. os ! i = Inl (Exception e)
                         \<and> ErrorLine (name (files ! i)) e \<in> set (stdout st')))
             \<and> (\<forall>r\<in>set stats. \<exists>fs fs'.
                    stat_size w fs (input_dir, filename r) = Inr (original_size r)
                  \<and> stat_size w fs' (output_dir, stem (filename r) @ ''.png'')
                      = Inr (converted_size r))"
    unfolding Let_def files_def os_def by (intro conjI)
  with d show ?thesis
    by blast
qed


text \<open>
  The theorem on the run over \<open>demo_fs\<close>: three files are discovered, \<open>b.ICNS\<close> cannot
  be decoded and is reported, and the outcome holds the two others.
\<close>

theorem outcome_bounded_witness:
  "convert_files demo_world (demo_state demo_fs []) =
     Inr (Some demo_outcome,
          \<lparr>filesys = ((''output'', ''c.png''), Png ''RGB'' 130)
                       # ((''output'', ''a.png''), Png ''RGBA'' 200) # demo_fs,
           stdin = [],
           stdout = [Found 3, Description '' a.png'',
                     ErrorLine ''b.ICNS'' ''cannot identify image file'',
                     Description '' c.png'']\<rparr>)
   \<and> length demo_outcome = 2
   \<and> length (icns_files [\<lparr>name = ''a.icns'', is_file = True\<rparr>,
                          \<lparr>name = ''b.ICNS'', is_file = True\<rparr>,
                          \<lparr>name = ''notes.txt'', is_file = True\<rparr>,
                          \<lparr>name = ''c.icns'', is_file = True\<rparr>]) = 3
   \<and> (\<exists>fs1 fs2 es.
           mkdir demo_world (filesys (demo_state demo_fs [])) input_dir = Inr fs1
         \<and> mkdir demo_world fs1 output_dir = Inr fs2
         \<and> iterdir demo_world fs2 input_dir = Inr es
         \<and> (let files = icns_files es; os = outcomes demo_world fs2 files
            in length demo_outcome \<le> length files
             \<and> length os = length files
             \<and> demo_outcome = successes os
             \<and> length demo_outcome + length (filter isl os) = length files
             \<and> (\<forall>i<length files.
                    (\<exists>r. os ! i = Inr r \<and> filename r = name (files ! i))
                  \<or> (\<exists>e. os ! i = Inl (Exception e)
                         \<and> ErrorLine (name (files ! i)) e
                             \<in> set [Found 3, Description '' a.png'',
                                     ErrorLine ''b.ICNS'' ''cannot identify image file'',
                                     Description '' c.png'']))
             \<and> (\<forall>r\<in>set demo_outcome. \<exists>fs fs'.
                    stat_size demo_world fs (input_dir, filename r) = Inr (original_size r)
                  \<and> stat_size demo_world fs' (output_dir, stem (filename r) @ ''.png'')
                      = Inr (converted_size r))))"
proof -
  have n: "length demo_outcome = 2"
    by (simp add: demo_outcome_def)
  have f: "length (icns_files [\<lparr>name = ''a.icns'', is_file = True\<rparr>,
                          \<lparr>name = ''b.ICNS'', is_file = True\<rparr>,
                          \<lparr>name = ''notes.txt'', is_file = True\<rparr>,
                          \<lparr>name = ''c.icns'', is_file = True\<rparr>]) = 3"
    by (simp add: icns_files_def suffix_of_def Let_def lower_def lower_char_def)
  from outcome_bounded [OF demo_convert_files [of "[]"]] demo_convert_files [of "[]"] n f
  show ?thesis
    by simp
qed

lemma convert_one_raises_iff:
  "snd (convert_one w fs nm) = Inl x \<longleftrightarrow>
     stat_size w fs (input_dir, nm) = Inl x
   \<or> (\<exists>n. stat_size w fs (input_dir, nm) = Inr n
        \<and> (image_open w fs (input_dir, nm) = Inl x
           \<or> (\<exists>img0. image_open w fs (input_dir, nm) = Inr img0
                \<and> (image_load w img0 = Inl x
                   \<or> (\<exists>img1. image_load w img0 = Inr img1
                        \<and> (normalize w img1 = Inl x
                           \<or> (\<exists>img. normalize w img1 = Inr img
                                \<and> (snd (image_save w fs (output_dir, stem nm @ ''.png'') img) = Some x
                                   \<or> (snd (image_save w fs (output_dir, stem nm @ ''.png'') img) = None
                                      \<and> stat_size w (fst (image_save w fs (output_dir, stem nm @ ''.png'') img))
                                           (output_dir, stem nm @ ''.png'') = Inl x)))))))))"
  by (auto simp: convert_one_def save_png_def Let_def
           split: sum.splits prod.splits option.splits)

text \<open>
  C3. An error raised by the \<open>try\<close> block of a file is caught in that iteration: the
  loop goes on with the next file, the batch outcome unchanged (the file is skipped) and
  one line printed that reports the name of the file and the cause. The loop never lets
  an error out. When no file of the batch is interrupted (nothing but errors is raised),
  the loop returns, with the dicts of the files that were converted and, for every file
  that raised an error, its report in the output. The errors of the \<open>try\<close> block are those
  of its steps: reading the size, opening and loading the image, converting its mode,
  saving it and reading the size of the written file.
\<close>

theorem per_file_errors_contained:
  "(convert_one w (filesys st) (name fp) = (fs', Inl (Exception e)) \<longrightarrow>
      convert_loop w (fp # rest) stats st
        = convert_loop w rest stats (py_print (ErrorLine (name fp) e) (st\<lparr>filesys := fs'\<rparr>)))
   \<and> (\<forall>e'. convert_loop w files stats st \<noteq> Inl (Exception e'))
   \<and> ((\<forall>x \<in> set (outcomes w (filesys st) files). \<not> escapes x) \<longrightarrow>
        (\<exists>st'. convert_loop w files stats st
                 = Inr (stats @ successes (outcomes w (filesys st) files), st')
             \<and> stdout st' = stdout st @ loop_events files (outcomes w (filesys st) files)
             \<and> (\<forall>i<length files. \<forall>e'.
                    outcomes w (filesys st) files ! i = Inl (Exception e') \<longrightarrow>
                    ErrorLine (name (files ! i)) e' \<in> set (stdout st'))))
   \<and> (snd (convert_one w fs nm) = Inl x \<longleftrightarrow>
     stat_size w fs (input_dir, nm) = Inl x
   \<or> (\<exists>n. stat_size w fs (input_dir, nm) = Inr n
        \<and> (image_open w fs (input_dir, nm) = Inl x
           \<or> (\<exists>img0. image_open w fs (input_dir, nm) = Inr img0
                \<and> (image_load w img0 = Inl x
                   \<or> (\<exists>img1. image_load w img0 = Inr img1
                        \<and> (normalize w img1 = Inl x
                           \<or> (\<exists>img. normalize w img1 = Inr img
                                \<and> (snd (image_save w fs (output_dir, stem nm @ ''.png'') img) = Some x
                                   \<or> (snd (image_save w fs (output_dir, stem nm @ ''.png'') img) = None
                                      \<and> stat_size w (fst (image_save w fs (output_dir, stem nm @ ''.png'') img))
                                           (output_dir, stem nm @ ''.png'') = Inl x))))))))))"
proof (intro conjI impI allI)
  assume "convert_one w (filesys st) (name fp) = (fs', Inl (Exception e))"
  then show "convert_loop w (fp # rest) stats st
        = convert_loop w rest stats (py_print (ErrorLine (name fp) e) (st\<lparr>filesys := fs'\<rparr>))"
    by simp
next
  fix e'
  show "convert_loop w files stats st \<noteq> Inl (Exception e')"
    by (rule convert_loop_never_raises_error)
next
  let ?os = "outcomes w (filesys st) files"
  assume esc: "\<forall>x \<in> set ?os. \<not> escapes x"
  from convert_loop_completes [OF this, of stats] obtain st' where
    run: "convert_loop w files stats st = Inr (stats @ successes ?os, st')"
    by blast
  from convert_loop_returns [OF run] have out: "stdout st' = stdout st @ loop_events files ?os"
    by simp
  have len: "length ?os = length files"
    by (rule length_outcomes)
  have "ErrorLine (name (files ! i)) e' \<in> set (stdout st')"
    if "i < length files" "?os ! i = Inl (Exception e')" for i e'
    using loop_events_error [OF esc len that] out by simp
  with run out show "\<exists>st'. convert_loop w files stats st = Inr (stats @ successes ?os, st')
             \<and> stdout st' = stdout st @ loop_events files ?os
             \<and> (\<forall>i<length files. \<forall>e'. ?os ! i = Inl (Exception e') \<longrightarrow>
                    ErrorLine (name (files ! i)) e' \<in> set (stdout st'))"
    by blast
next
  show "snd (convert_one w fs nm) = Inl x \<longleftrightarrow>
     stat_size w fs (input_dir, nm) = Inl x
   \<or> (\<exists>n. stat_size w fs (input_dir, nm) = Inr n
        \<and> (image_open w fs (input_dir, nm) = Inl x
           \<or> (\<exists>img0. image_open w fs (input_dir, nm) = Inr img0
                \<and> (image_load w img0 = Inl x
                   \<or> (\<exists>img1. image_load w img0 = Inr img1
                        \<and> (normalize w img1 = Inl x
                           \<or> (\<exists>img. normalize w img1 = Inr img
                                \<and> (snd (image_save w fs (output_dir, stem nm @ ''.png'') img) = Some x
                                   \<or> (snd (image_save w fs (output_dir, stem nm @ ''.png'') img) = None
                                      \<and> stat_size w (fst (image_save w fs (output_dir, stem nm @ ''.png'') img))
                                           (output_dir, stem nm @ ''.png'') = Inl x)))))))))"
    by (rule convert_one_raises_iff)
qed

lemma demo_convert_one_junk:
  "convert_one demo_world demo_fs ''b.ICNS''
     = (demo_fs, Inl (Exception ''cannot identify image file''))"
  by (simp add: demo_simps)

text \<open>
  The theorem in \<open>demo_world\<close>: \<open>b.ICNS\<close> cannot be decoded, the error is reported and
  the loop goes on to convert \<open>c.icns\<close>; nothing escapes on this batch, and the loop
  returns the one dict and the two lines.
\<close>

theorem per_file_errors_contained_witness:
  "(convert_one demo_world (filesys (demo_state demo_fs [])) (name \<lparr>name = ''b.ICNS'', is_file = True\<rparr>)
     = (demo_fs, Inl (Exception ''cannot identify image file''))
   \<and> convert_loop demo_world
       [\<lparr>name = ''b.ICNS'', is_file = True\<rparr>, \<lparr>name = ''c.icns'', is_file = True\<rparr>] []
       (demo_state demo_fs [])
     = convert_loop demo_world [\<lparr>name = ''c.icns'', is_file = True\<rparr>] []
         \<lparr>filesys = demo_fs, stdin = [],
          stdout = [ErrorLine ''b.ICNS'' ''cannot identify image file'']\<rparr>
   \<and> convert_loop demo_world
       [\<lparr>name = ''b.ICNS'', is_file = True\<rparr>, \<lparr>name = ''c.icns'', is_file = True\<rparr>] []
       (demo_state demo_fs [])
     = Inr ([\<lparr>filename = ''c.icns'', original_size = 30, converted_size = 130\<rparr>],
            \<lparr>filesys = ((''output'', ''c.png''), Png ''RGB'' 130) # demo_fs, stdin = [],
             stdout = [ErrorLine ''b.ICNS'' ''cannot identify image file'',
                       Description '' c.png'']\<rparr>))
   \<and> (outcomes demo_world (filesys (demo_state demo_fs []))
       [\<lparr>name = ''b.ICNS'', is_file = True\<rparr>, \<lparr>name = ''c.icns'', is_file = True\<rparr>]
     = [Inl (Exception ''cannot identify image file''),
        Inr \<lparr>filename = ''c.icns'', original_size = 30, converted_size = 130\<rparr>]
   \<and> (\<exists>st'. convert_loop demo_world
          [\<lparr>name = ''b.ICNS'', is_file = True\<rparr>, \<lparr>name = ''c.icns'', is_file = True\<rparr>] []
          (demo_state demo_fs [])
        = Inr ([\<lparr>filename = ''c.icns'', original_size = 30, converted_size = 130\<rparr>], st')
      \<and> stdout st' = [ErrorLine ''b.ICNS'' ''cannot identify image file'',
                       Description '' c.png'']))"
proof -
  have first: "convert_one demo_world (filesys (demo_state demo_fs [])) (name \<lparr>name = ''b.ICNS'', is_file = True\<rparr>)
     = (demo_fs, Inl (Exception ''cannot identify image file''))
   \<and> convert_loop demo_world
       [\<lparr>name = ''b.ICNS'', is_file = True\<rparr>, \<lparr>name = ''c.icns'', is_file = True\<rparr>] []
       (demo_state demo_fs [])
     = convert_loop demo_world [\<lparr>name = ''c.icns'', is_file = True\<rparr>] []
         \<lparr>filesys = demo_fs, stdin = [],
          stdout = [ErrorLine ''b.ICNS'' ''cannot identify image file'']\<rparr>
   \<and> convert_loop demo_world
       [\<lparr>name = ''b.ICNS'', is_file = True\<rparr>, \<lparr>name = ''c.icns'', is_file = True\<rparr>] []
       (demo_state demo_fs [])
     = Inr ([\<lparr>filename = ''c.icns'', original_size = 30, converted_size = 130\<rparr>],
            \<lparr>filesys = ((''output'', ''c.png''), Png ''RGB'' 130) # demo_fs, stdin = [],
             stdout = [ErrorLine ''b.ICNS'' ''cannot identify image file'',
                       Description '' c.png'']\<rparr>)"
  proof -
    have c: "convert_one demo_world (filesys (demo_state demo_fs []))
               (name \<lparr>name = ''b.ICNS'', is_file = True\<rparr>)
       = (demo_fs, Inl (Exception ''cannot identify image file''))"
      by (simp add: demo_state_def demo_convert_one_junk)
    from per_file_errors_contained
      [of demo_world "demo_state demo_fs []" "\<lparr>name = ''b.ICNS'', is_file = True\<rparr>" demo_fs
          "''cannot identify image file''" "[\<lparr>name = ''c.icns'', is_file = True\<rparr>]" "[]"] c
    have 1: "convert_loop demo_world
         [\<lparr>name = ''b.ICNS'', is_file = True\<rparr>, \<lparr>name = ''c.icns'', is_file = True\<rparr>] []
         (demo_state demo_fs [])
       = convert_loop demo_world [\<lparr>name = ''c.icns'', is_file = True\<rparr>] []
           \<lparr>filesys = demo_fs, stdin = [],
            stdout = [ErrorLine ''b.ICNS'' ''cannot identify image file'']\<rparr>"
      by (simp add: py_print_def demo_state_def)
    have 2: "convert_loop demo_world [\<lparr>name = ''c.icns'', is_file = True\<rparr>] []
           \<lparr>filesys = demo_fs, stdin = [],
            stdout = [ErrorLine ''b.ICNS'' ''cannot identify image file'']\<rparr>
       = Inr ([\<lparr>filename = ''c.icns'', original_size = 30, converted_size = 130\<rparr>],
              \<lparr>filesys = ((''output'', ''c.png''), Png ''RGB'' 130) # demo_fs, stdin = [],
               stdout = [ErrorLine ''b.ICNS'' ''cannot identify image file'',
                         Description '' c.png'']\<rparr>)"
      by (simp add: demo_simps py_print_def)
    from c 1 2 show ?thesis
      by simp
  qed
  have second: "outcomes demo_world (filesys (demo_state demo_fs []))
       [\<lparr>name = ''b.ICNS'', is_file = True\<rparr>, \<lparr>name = ''c.icns'', is_file = True\<rparr>]
     = [Inl (Exception ''cannot identify image file''),
        Inr \<lparr>filename = ''c.icns'', original_size = 30, converted_size = 130\<rparr>]
   \<and> (\<exists>st'. convert_loop demo_world
          [\<lparr>name = ''b.ICNS'', is_file = True\<rparr>, \<lparr>name = ''c.icns'', is_file = True\<rparr>] []
          (demo_state demo_fs [])
        = Inr ([\<lparr>filename = ''c.icns'', original_size = 30, converted_size = 130\<rparr>], st')
      \<and> stdout st' = [ErrorLine ''b.ICNS'' ''cannot identify image file'',
                       Description '' c.png''])"
  proof -
    let ?files = "[\<lparr>name = ''b.ICNS'', is_file = True\<rparr>, \<lparr>name = ''c.icns'', is_file = True\<rparr>]"
    have os: "outcomes demo_world (filesys (demo_state demo_fs [])) ?files
       = [Inl (Exception ''cannot identify image file''),
          Inr \<lparr>filename = ''c.icns'', original_size = 30, converted_size = 130\<rparr>]"
      by (simp add: demo_simps demo_state_def)
    then have esc: "\<forall>x \<in> set (outcomes demo_world (filesys (demo_state demo_fs [])) ?files).
                      \<not> escapes x"
      by simp
    from per_file_errors_contained [of demo_world "demo_state demo_fs []" _ _ _ _ "[]" ?files] esc
    obtain st' where "convert_loop demo_world ?files [] (demo_state demo_fs [])
                   = Inr ([] @ successes (outcomes demo_world (filesys (demo_state demo_fs [])) ?files), st')"
      "stdout st' = stdout (demo_state demo_fs [])
          @ loop_events ?files (outcomes demo_world (filesys (demo_state demo_fs [])) ?files)"
      by blast
    then have "convert_loop demo_world ?files [] (demo_state demo_fs [])
          = Inr ([\<lparr>filename = ''c.icns'', original_size = 30, converted_size = 130\<rparr>], st')
        \<and> stdout st' = [ErrorLine ''b.ICNS'' ''cannot identify image file'',
                         Description '' c.png'']"
      unfolding os by (simp add: demo_state_def stem_def Let_def)
    with os show ?thesis
      by blast
  qed
  from first second show ?thesis
    by (rule conjI)
qed


section \<open>Stripping a reply\<close>

text \<open>
  One whitespace character of Python, whichever of the 29 it is, is removed by \<open>strip\<close>
  from either end of a reply, so that \<open>q\<close> and \<open>quit\<close> in either case are a quit with
  such characters around them; whitespace inside a reply stays.
\<close>

lemma letter_not_in_whitespace:
  assumes "x \<in> set ''qQtT''"
  shows "\<not> isspace [x]" and "\<not> isspace [x, b]" and "\<not> isspace [x, b, c]"
    and "\<not> isspace [b, x]" and "\<not> isspace [a, b, x]"
  using assms by (auto simp: isspace_def)

lemma whitespace_shape:
  assumes "isspace u"
  shows "(\<exists>a. u = [a])
       \<or> (\<exists>a b. u = [a, b] \<and> \<not> isspace [a] \<and> \<not> isspace [b])
       \<or> (\<exists>a b c. u = [a, b, c] \<and> \<not> isspace [a] \<and> \<not> isspace [a, b]
              \<and> \<not> isspace [c] \<and> \<not> isspace [b, c])"
  using assms unfolding isspace_def by fastforce


lemma lstrip_whitespace:
  assumes "isspace u"
  shows "lstrip (u @ s) = lstrip s"
proof -
  from whitespace_shape [OF assms] consider
      a where "u = [a]"
    | a b where "u = [a, b]" "\<not> isspace [a]"
    | a b c where "u = [a, b, c]" "\<not> isspace [a]" "\<not> isspace [a, b]"
    by blast
  then show ?thesis
  proof cases
    case 1
    with assms show ?thesis by (cases s rule: lstrip.cases) simp_all
  next
    case 2
    with assms show ?thesis by (cases s) simp_all
  next
    case 3
    with assms show ?thesis by simp
  qed
qed

lemma rstrip_rev_whitespace:
  assumes "isspace u"
  shows "rstrip_rev (rev u @ s) = rstrip_rev s"
proof -
  from whitespace_shape [OF assms] consider
      a where "u = [a]"
    | a b where "u = [a, b]" "\<not> isspace [b]"
    | a b c where "u = [a, b, c]" "\<not> isspace [c]" "\<not> isspace [b, c]"
    by blast
  then show ?thesis
  proof cases
    case 1
    with assms show ?thesis by (cases s rule: rstrip_rev.cases) simp_all
  next
    case 2
    with assms show ?thesis by (cases s) simp_all
  next
    case 3
    with assms show ?thesis by simp
  qed
qed

lemma lstrip_stops:
  assumes "x \<in> set ''qQtT''"
  shows "lstrip (x # s) = x # s"
  using letter_not_in_whitespace(1-3) [OF assms]
  by (cases "x # s" rule: lstrip.cases) simp_all

lemma rstrip_rev_stops:
  assumes "x \<in> set ''qQtT''"
  shows "rstrip_rev (x # s) = x # s"
  using letter_not_in_whitespace(1,4,5) [OF assms]
  by (cases "x # s" rule: rstrip_rev.cases) simp_all


lemma strip_whitespace_around:
  assumes "isspace u" and "isspace v" and "x \<in> set ''qQtT''" and "y \<in> set ''qQtT''"
  shows "strip (u @ x # s @ y # v) = x # s @ [y]"
    and "strip (u @ x # v) = [x]"
proof -
  have "lstrip (u @ x # s @ y # v) = x # s @ y # v"
    using assms(1,3) by (simp only: lstrip_whitespace lstrip_stops)
  moreover have "rstrip_rev (rev v @ y # rev s @ [x]) = y # rev s @ [x]"
    using assms(2,4) by (simp only: rstrip_rev_whitespace rstrip_rev_stops)
  ultimately show "strip (u @ x # s @ y # v) = x # s @ [y]"
    by (simp add: strip_def rstrip_def)
  have "lstrip (u @ x # v) = x # v"
    using assms(1,3) by (simp only: lstrip_whitespace lstrip_stops)
  moreover have "rstrip_rev (rev v @ [x]) = [x]"
    using assms(2,3) by (simp only: rstrip_rev_whitespace rstrip_rev_stops)
  ultimately show "strip (u @ x # v) = [x]"
    by (simp add: strip_def rstrip_def)
qed

lemma wants_quit_whitespace:
  assumes "isspace u" and "isspace v"
  shows "wants_quit (u @ ''q'' @ v)" and "wants_quit (u @ ''Q'' @ v)"
    and "wants_quit (u @ ''quit'' @ v)" and "wants_quit (u @ ''QUIT'' @ v)"
proof -
  have 1: "strip (u @ ''q'' @ v) = ''q''"
    using strip_whitespace_around(2) [OF assms, of "CHR ''q''" "CHR ''q''"] by simp
  have 2: "strip (u @ ''Q'' @ v) = ''Q''"
    using strip_whitespace_around(2) [OF assms, of "CHR ''Q''" "CHR ''Q''"] by simp
  have 3: "strip (u @ ''quit'' @ v) = ''quit''"
    using strip_whitespace_around(1) [OF assms, of "CHR ''q''" "CHR ''t''" "''ui''"] by simp
  have 4: "strip (u @ ''QUIT'' @ v) = ''QUIT''"
    using strip_whitespace_around(1) [OF assms, of "CHR ''Q''" "CHR ''T''" "''UI''"] by simp
  show "wants_quit (u @ ''q'' @ v)"
    unfolding wants_quit_def 1 by (simp add: lower_def lower_char_def)
  show "wants_quit (u @ ''Q'' @ v)"
    unfolding wants_quit_def 2 by (simp add: lower_def lower_char_def)
  show "wants_quit (u @ ''quit'' @ v)"
    unfolding wants_quit_def 3 by (simp add: lower_def lower_char_def)
  show "wants_quit (u @ ''QUIT'' @ v)"
    unfolding wants_quit_def 4 by (simp add: lower_def lower_char_def)
qed

lemma wants_quit_no_break_space: "wants_quit [CHR ''q'', CHR 0xC2, CHR 0xA0]"
  by (simp add: wants_quit_def isspace_def strip_def rstrip_def lower_def lower_char_def)

lemma strip_inner_kept: "strip ''  a b  '' = ''a b''"
  by (simp add: isspace_def strip_def rstrip_def)

section \<open>The body of main\<close>

lemmas io_simps =
  ask_output_format_def py_input_def py_print_def wants_quit_def strip_def rstrip_def isspace_def
  lower_def lower_char_def demo_state_def quit_reply_def

lemma print_summary_Nil:
  "print_summary [] = Inr \<lparr>files_converted = 0, original_total = 0, converted_total = 0,
       change_sign = arrow_down, change_color = Fore_GREEN, change_size = 0,
       top3_report = None\<rparr>"
  by (simp add: print_summary_value sign_def color_def delta_sum_list)

lemma main_body_empty_outcome:
  assumes "ask_output_format (py_print Header st) = Inr (fmt, st1)"
    and "convert_files w st1 = Inr (Some [], st2)"
  shows "main_body w st =
           (case py_input (py_print Ready st2) of
              Inl e \<Rightarrow> Inl e
            | Inr (choice, st4) \<Rightarrow>
                if wants_quit choice then Inr (Break, py_print Exiting st4)
                else Inr (Restart, st4))"
  using assms by (simp add: main_body_def)

lemma main_body_no_work:
  assumes "ask_output_format (py_print Header st) = Inr (fmt, st1)"
    and "convert_files w st1 = Inr (None, st2)"
  shows "main_body w st = Inr (Continue, st2)"
  using assms by (simp add: main_body_def)

text \<open>
  C8. After the format was asked for: when \<open>convert_files\<close> returns the empty batch
  outcome, the body of the loop of \<open>main\<close> goes straight to the end-of-run prompt, and all
  it prints after the conversion is that prompt (and the exit message on quit), no
  summary; when \<open>convert_files\<close> returns \<open>None\<close> the body ends at \<open>continue\<close>, nothing
  printed. The block of \<open>print_summary\<close> that divides is itself under \<open>if stats:\<close>: for
  the empty outcome it has no top-3 report.
\<close>

theorem empty_outcome_skips_summary:
  assumes "ask_output_format (py_print Header st) = Inr (fmt, st1)"
  shows "(convert_files w st1 = Inr (Some [], st2) \<longrightarrow>
            main_body w st =
              (case py_input (py_print Ready st2) of
                 Inl e \<Rightarrow> Inl e
               | Inr (choice, st4) \<Rightarrow>
                   if wants_quit choice then Inr (Break, py_print Exiting st4)
                   else Inr (Restart, st4))
          \<and> (\<forall>c st'. main_body w st = Inr (c, st') \<longrightarrow>
                stdout st' = stdout st2 @ [Ready] \<or> stdout st' = stdout st2 @ [Ready, Exiting]))
       \<and> (convert_files w st1 = Inr (None, st2) \<longrightarrow> main_body w st = Inr (Continue, st2))
       \<and> (\<exists>r. print_summary [] = Inr r \<and> top3_report r = None)"
proof (intro conjI impI)
  assume c: "convert_files w st1 = Inr (Some [], st2)"
  show b: "main_body w st =
           (case py_input (py_print Ready st2) of
              Inl e \<Rightarrow> Inl e
            | Inr (choice, st4) \<Rightarrow>
                if wants_quit choice then Inr (Break, py_print Exiting st4)
                else Inr (Restart, st4))"
    using assms c by (rule main_body_empty_outcome)
  have "stdout st' = stdout st2 @ [Ready] \<or> stdout st' = stdout st2 @ [Ready, Exiting]"
    if "main_body w st = Inr (c, st')" for c st'
    using that unfolding b
    by (auto simp: py_input_def py_print_def split: list.splits if_splits)
  then show "\<forall>c st'. main_body w st = Inr (c, st') \<longrightarrow>
                stdout st' = stdout st2 @ [Ready] \<or> stdout st' = stdout st2 @ [Ready, Exiting]"
    by blast
next
  assume "convert_files w st1 = Inr (None, st2)"
  with assms show "main_body w st = Inr (Continue, st2)"
    by (rule main_body_no_work)
next
  show "\<exists>r. print_summary [] = Inr r \<and> top3_report r = None"
    by (simp add: print_summary_Nil)
qed

lemma demo_junk_convert_files:
  "convert_files demo_world \<lparr>filesys = demo_junk, stdin = ls, stdout = out\<rparr> =
     Inr (Some [],
          \<lparr>filesys = demo_junk, stdin = ls,
           stdout = out @ [Found 2, ErrorLine ''x.icns'' ''cannot identify image file'',
                     ErrorLine ''y.icns'' ''cannot identify image file'']\<rparr>)"
  by (simp add: demo_world_def demo_junk_def input_dir_def output_dir_def stem_def suffix_of_def
        Let_def convert_one_def save_png_def normalize_def
        convert_files_def icns_files_def lower_def lower_char_def py_print_def)

text \<open>
  The theorem on \<open>demo_junk\<close>, where both files fail: the errors are reported and the
  next thing printed is the end-of-run prompt. On the empty directory the body ends at
  \<open>continue\<close>.
\<close>

theorem empty_outcome_skips_summary_witness:
  "(ask_output_format (py_print Header (demo_state demo_junk [''1'', []]))
     = Inr (''png'', \<lparr>filesys = demo_junk, stdin = [[]], stdout = [Header, FormatPrompt]\<rparr>)
   \<and> convert_files demo_world
        \<lparr>filesys = demo_junk, stdin = [[]], stdout = [Header, FormatPrompt]\<rparr>
     = Inr (Some [],
          \<lparr>filesys = demo_junk, stdin = [[]],
           stdout = [Header, FormatPrompt, Found 2,
                     ErrorLine ''x.icns'' ''cannot identify image file'',
                     ErrorLine ''y.icns'' ''cannot identify image file'']\<rparr>)
   \<and> main_body demo_world (demo_state demo_junk [''1'', []])
     = Inr (Restart,
          \<lparr>filesys = demo_junk, stdin = [],
           stdout = [Header, FormatPrompt, Found 2,
                     ErrorLine ''x.icns'' ''cannot identify image file'',
                     ErrorLine ''y.icns'' ''cannot identify image file'', Ready]\<rparr>))
   \<and> (convert_files demo_world \<lparr>filesys = [], stdin = [[]], stdout = [Header, FormatPrompt]\<rparr>
     = Inr (None, \<lparr>filesys = [], stdin = [], stdout = [Header, FormatPrompt, NoFiles]\<rparr>)
   \<and> main_body demo_world (demo_state [] [''1'', []])
     = Inr (Continue, \<lparr>filesys = [], stdin = [], stdout = [Header, FormatPrompt, NoFiles]\<rparr>))"
proof -
  have first: "ask_output_format (py_print Header (demo_state demo_junk [''1'', []]))
     = Inr (''png'', \<lparr>filesys = demo_junk, stdin = [[]], stdout = [Header, FormatPrompt]\<rparr>)
   \<and> convert_files demo_world
        \<lparr>filesys = demo_junk, stdin = [[]], stdout = [Header, FormatPrompt]\<rparr>
     = Inr (Some [],
          \<lparr>filesys = demo_junk, stdin = [[]],
           stdout = [Header, FormatPrompt, Found 2,
                     ErrorLine ''x.icns'' ''cannot identify image file'',
                     ErrorLine ''y.icns'' ''cannot identify image file'']\<rparr>)
   \<and> main_body demo_world (demo_state demo_junk [''1'', []])
     = Inr (Restart,
          \<lparr>filesys = demo_junk, stdin = [],
           stdout = [Header, FormatPrompt, Found 2,
                     ErrorLine ''x.icns'' ''cannot identify image file'',
                     ErrorLine ''y.icns'' ''cannot identify image file'', Ready]\<rparr>)"
  proof -
    have a: "ask_output_format (py_print Header (demo_state demo_junk [''1'', []]))
       = Inr (''png'', \<lparr>filesys = demo_junk, stdin = [[]], stdout = [Header, FormatPrompt]\<rparr>)"
      by (simp add: io_simps)
    have c: "convert_files demo_world
          \<lparr>filesys = demo_junk, stdin = [[]], stdout = [Header, FormatPrompt]\<rparr>
       = Inr (Some [],
            \<lparr>filesys = demo_junk, stdin = [[]],
             stdout = [Header, FormatPrompt, Found 2,
                       ErrorLine ''x.icns'' ''cannot identify image file'',
                       ErrorLine ''y.icns'' ''cannot identify image file'']\<rparr>)"
      by (simp add: demo_junk_convert_files)
    from empty_outcome_skips_summary [OF a, of demo_world] c
    have "main_body demo_world (demo_state demo_junk [''1'', []])
       = Inr (Restart,
            \<lparr>filesys = demo_junk, stdin = [],
             stdout = [Header, FormatPrompt, Found 2,
                       ErrorLine ''x.icns'' ''cannot identify image file'',
                       ErrorLine ''y.icns'' ''cannot identify image file'', Ready]\<rparr>)"
      by (simp add: io_simps)
    with a c show ?thesis
      by (intro conjI)
  qed
  have second: "convert_files demo_world \<lparr>filesys = [], stdin = [[]], stdout = [Header, FormatPrompt]\<rparr>
     = Inr (None, \<lparr>filesys = [], stdin = [], stdout = [Header, FormatPrompt, NoFiles]\<rparr>)
   \<and> main_body demo_world (demo_state [] [''1'', []])
     = Inr (Continue, \<lparr>filesys = [], stdin = [], stdout = [Header, FormatPrompt, NoFiles]\<rparr>)"
  proof -
    have a: "ask_output_format (py_print Header (demo_state [] [''1'', []]))
       = Inr (''png'', \<lparr>filesys = [], stdin = [[]], stdout = [Header, FormatPrompt]\<rparr>)"
      by (simp add: io_simps)
    have c: "convert_files demo_world \<lparr>filesys = [], stdin = [[]], stdout = [Header, FormatPrompt]\<rparr>
       = Inr (None, \<lparr>filesys = [], stdin = [], stdout = [Header, FormatPrompt, NoFiles]\<rparr>)"
      by (simp add: convert_files_def demo_world_def icns_files_def io_simps)
    from empty_outcome_skips_summary [OF a, of demo_world] c
    have "main_body demo_world (demo_state [] [''1'', []])
       = Inr (Continue, \<lparr>filesys = [], stdin = [], stdout = [Header, FormatPrompt, NoFiles]\<rparr>)"
      by blast
    with c show ?thesis
      by (intro conjI)
  qed
  from first second show ?thesis
    by (rule conjI)
qed


lemma loop_events_no_summary: "Summary s \<notin> set (loop_events files os)"
  by (induction files os rule: loop_events.induct) simp_all

lemma successes_all_errors:
  "\<forall>x \<in> set os. \<exists>e. x = Inl (Exception e) \<Longrightarrow> successes os = []"
  by (induction os rule: successes.induct) auto

lemma convert_files_no_files:
  assumes "mkdir w (filesys st) input_dir = Inr fs1" and "mkdir w fs1 output_dir = Inr fs2"
    and "iterdir w fs2 input_dir = Inr es" and "icns_files es = []"
    and "stdin st = l # ls"
  shows "convert_files w st =
           (if wants_quit l then Inl (SystemExit 0)
            else Inr (None, st\<lparr>filesys := fs2, stdin := ls, stdout := stdout st @ [NoFiles]\<rparr>))"
  using assms by (simp add: convert_files_def py_input_def py_print_def)

lemma convert_files_all_fail:
  assumes "mkdir w (filesys st) input_dir = Inr fs1" and "mkdir w fs1 output_dir = Inr fs2"
    and "iterdir w fs2 input_dir = Inr es" and "icns_files es \<noteq> []"
    and "\<forall>x \<in> set (outcomes w fs2 (icns_files es)). \<exists>e. x = Inl (Exception e)"
  shows "\<exists>st2. convert_files w st = Inr (Some [], st2)
           \<and> stdout st2 = stdout st @ Found (length (icns_files es))
                 # loop_events (icns_files es) (outcomes w fs2 (icns_files es))"
proof -
  let ?st = "py_print (Found (length (icns_files es))) (st\<lparr>filesys := fs2\<rparr>)"
  let ?os = "outcomes w fs2 (icns_files es)"
  from assms(5) have esc: "\<forall>x \<in> set (outcomes w (filesys ?st) (icns_files es)). \<not> escapes x"
    by (auto simp: py_print_def)
  from convert_loop_completes [OF esc, of "[]"] obtain st2 where
    run: "convert_loop w (icns_files es) [] ?st = Inr (successes ?os, st2)"
    by (auto simp: py_print_def)
  from convert_loop_returns [OF run]
  have out: "stdout st2 = stdout st @ Found (length (icns_files es)) # loop_events (icns_files es) ?os"
    by (simp add: py_print_def)
  from assms(5) have "successes ?os = []"
    by (rule successes_all_errors)
  with run assms(1-4) have "convert_files w st = Inr (Some [], st2)"
    by (simp add: convert_files_def)
  with out show ?thesis
    by blast
qed

text \<open>
  C9 as stated fails. With no file in the input directory \<open>convert_files\<close> asks the
  operator whether to return or to quit; on the reply \<open>q\<close> it calls \<open>sys.exit(0)\<close>: it
  returns no \<open>None\<close>, and \<open>main\<close> ends with it instead of prompting again.
\<close>

theorem no_files_quit_counterexample:
  "iterdir demo_world [] input_dir = Inr []
   \<and> icns_files [] = []
   \<and> convert_files demo_world (demo_state [] [''q'']) = Inl (SystemExit 0)
   \<and> main demo_world (demo_state [] [''1'', ''q'']) = Inl (SystemExit 0)"
proof -
  have 1: "iterdir demo_world [] input_dir = Inr []"
    by (simp add: demo_world_def)
  have 2: "icns_files [] = []"
    by (simp add: icns_files_def)
  have 3: "convert_files demo_world \<lparr>filesys = [], stdin = [''q''], stdout = out\<rparr>
             = Inl (SystemExit 0)" for out
    by (simp add: convert_files_def demo_world_def icns_files_def io_simps)
  have 4: "main_body demo_world (demo_state [] [''1'', ''q'']) = Inl (SystemExit 0)"
    by (simp add: main_body_def io_simps 3)
  have 5: "main demo_world (demo_state [] [''1'', ''q'']) = Inl (SystemExit 0)"
    by (subst main.simps) (simp add: 4)
  from 1 2 3 [of "[]"] 5 show ?thesis
    by (simp add: demo_state_def)
qed

text \<open>
  C9, amended. After the format was asked for and the directories were made and listed:
  when no file is discovered and the operator's reply to the prompt is not a quit,
  \<open>convert_files\<close> returns \<open>None\<close> and the body of \<open>main\<close> ends at \<open>continue\<close>, so that
  \<open>main\<close> starts over from the state left, with no summary printed; when the reply is a
  quit, \<open>convert_files\<close> and \<open>main\<close> end with \<open>SystemExit 0\<close>. When files are discovered
  and every one of them raises an error, \<open>convert_files\<close> returns the empty list, having
  printed the count and the loop's lines, none of them a summary, and the body of
  \<open>main\<close> goes on to the end-of-run prompt.
\<close>

theorem empty_cases_distinguished:
  assumes "ask_output_format (py_print Header st0) = Inr (fmt, st)"
    and "mkdir w (filesys st) input_dir = Inr fs1"
    and "mkdir w fs1 output_dir = Inr fs2"
    and "iterdir w fs2 input_dir = Inr es"
  shows "(icns_files es = [] \<and> stdin st = l # ls \<and> \<not> wants_quit l \<longrightarrow>
            convert_files w st
              = Inr (None, st\<lparr>filesys := fs2, stdin := ls, stdout := stdout st @ [NoFiles]\<rparr>)
          \<and> main_body w st0
              = Inr (Continue, st\<lparr>filesys := fs2, stdin := ls, stdout := stdout st @ [NoFiles]\<rparr>)
          \<and> main w st0
              = main w (st\<lparr>filesys := fs2, stdin := ls, stdout := stdout st @ [NoFiles]\<rparr>))
       \<and> (icns_files es = [] \<and> stdin st = l # ls \<and> wants_quit l \<longrightarrow>
            convert_files w st = Inl (SystemExit 0) \<and> main w st0 = Inl (SystemExit 0))
       \<and> (icns_files es \<noteq> []
            \<and> (\<forall>x \<in> set (outcomes w fs2 (icns_files es)). \<exists>e. x = Inl (Exception e)) \<longrightarrow>
            (\<exists>st2. convert_files w st = Inr (Some [], st2)
               \<and> stdout st2 = stdout st @ Found (length (icns_files es))
                     # loop_events (icns_files es) (outcomes w fs2 (icns_files es))
               \<and> (\<forall>s. Summary s \<notin> set (loop_events (icns_files es)
                                            (outcomes w fs2 (icns_files es))))
               \<and> main_body w st0 =
                   (case py_input (py_print Ready st2) of
                      Inl e \<Rightarrow> Inl e
                    | Inr (choice, st4) \<Rightarrow>
                        if wants_quit choice then Inr (Break, py_print Exiting st4)
                        else Inr (Restart, st4))))"
proof (intro conjI impI)
  assume a: "icns_files es = [] \<and> stdin st = l # ls \<and> \<not> wants_quit l"
  let ?st2 = "st\<lparr>filesys := fs2, stdin := ls, stdout := stdout st @ [NoFiles]\<rparr>"
  from a convert_files_no_files [OF assms(2-4), of l ls]
  show c: "convert_files w st = Inr (None, ?st2)"
    by simp
  from main_body_no_work [OF assms(1) c]
  show b: "main_body w st0 = Inr (Continue, ?st2)" .
  show "main w st0 = main w ?st2"
    by (subst main.simps) (simp add: b)
next
  assume a: "icns_files es = [] \<and> stdin st = l # ls \<and> wants_quit l"
  from a convert_files_no_files [OF assms(2-4), of l ls]
  show c: "convert_files w st = Inl (SystemExit 0)"
    by simp
  with assms(1) have "main_body w st0 = Inl (SystemExit 0)"
    by (simp add: main_body_def)
  then show "main w st0 = Inl (SystemExit 0)"
    by (subst main.simps) simp
next
  assume a: "icns_files es \<noteq> []
            \<and> (\<forall>x \<in> set (outcomes w fs2 (icns_files es)). \<exists>e. x = Inl (Exception e))"
  from a convert_files_all_fail [OF assms(2-4)] obtain st2 where
    c: "convert_files w st = Inr (Some [], st2)"
    and out: "stdout st2 = stdout st @ Found (length (icns_files es))
                     # loop_events (icns_files es) (outcomes w fs2 (icns_files es))"
    by blast
  from main_body_empty_outcome [OF assms(1) c] c out loop_events_no_summary
  show "\<exists>st2. convert_files w st = Inr (Some [], st2)
               \<and> stdout st2 = stdout st @ Found (length (icns_files es))
                     # loop_events (icns_files es) (outcomes w fs2 (icns_files es))
               \<and> (\<forall>s. Summary s \<notin> set (loop_events (icns_files es)
                                            (outcomes w fs2 (icns_files es))))
               \<and> main_body w st0 =
                   (case py_input (py_print Ready st2) of
                      Inl e \<Rightarrow> Inl e
                    | Inr (choice, st4) \<Rightarrow>
                        if wants_quit choice then Inr (Break, py_print Exiting st4)
                        else Inr (Restart, st4))"
    by blast
qed


text \<open>
  The theorem on the empty directory with an empty reply, on \<open>demo_junk\<close>, and on the
  empty directory with the reply \<open>quit_reply\<close>, which \<open>strip()\<close> and \<open>lower()\<close> turn
  into \<open>q\<close>.
\<close>

theorem empty_cases_distinguished_witness:
  "(ask_output_format (py_print Header (demo_state [] [''1'', []]))
     = Inr (''png'', \<lparr>filesys = [], stdin = [[]], stdout = [Header, FormatPrompt]\<rparr>)
   \<and> iterdir demo_world [] input_dir = Inr []
   \<and> icns_files [] = []
   \<and> \<not> wants_quit []
   \<and> convert_files demo_world \<lparr>filesys = [], stdin = [[]], stdout = [Header, FormatPrompt]\<rparr>
     = Inr (None, \<lparr>filesys = [], stdin = [], stdout = [Header, FormatPrompt, NoFiles]\<rparr>)
   \<and> main_body demo_world (demo_state [] [''1'', []])
     = Inr (Continue, \<lparr>filesys = [], stdin = [], stdout = [Header, FormatPrompt, NoFiles]\<rparr>)
   \<and> ask_output_format (py_print Header (demo_state demo_junk [''1'', []]))
     = Inr (''png'', \<lparr>filesys = demo_junk, stdin = [[]], stdout = [Header, FormatPrompt]\<rparr>)
   \<and> map name (icns_files [\<lparr>name = ''x.icns'', is_file = True\<rparr>,
                            \<lparr>name = ''y.icns'', is_file = True\<rparr>]) = [''x.icns'', ''y.icns'']
   \<and> outcomes demo_world demo_junk [\<lparr>name = ''x.icns'', is_file = True\<rparr>,
                                      \<lparr>name = ''y.icns'', is_file = True\<rparr>]
     = [Inl (Exception ''cannot identify image file''),
        Inl (Exception ''cannot identify image file'')]
   \<and> (\<exists>st2. convert_files demo_world
               \<lparr>filesys = demo_junk, stdin = [[]], stdout = [Header, FormatPrompt]\<rparr>
             = Inr (Some [], st2)
          \<and> stdout st2 = [Header, FormatPrompt, Found 2,
                           ErrorLine ''x.icns'' ''cannot identify image file'',
                           ErrorLine ''y.icns'' ''cannot identify image file'']
          \<and> main_body demo_world (demo_state demo_junk [''1'', []])
             = Inr (Restart, st2\<lparr>stdin := [], stdout := stdout st2 @ [Ready]\<rparr>)))
   \<and> (ask_output_format (py_print Header (demo_state [] [''1'', quit_reply]))
     = Inr (''png'', \<lparr>filesys = [], stdin = [quit_reply], stdout = [Header, FormatPrompt]\<rparr>)
   \<and> wants_quit quit_reply
   \<and> convert_files demo_world \<lparr>filesys = [], stdin = [quit_reply], stdout = [Header, FormatPrompt]\<rparr>
     = Inl (SystemExit 0)
   \<and> main demo_world (demo_state [] [''1'', quit_reply]) = Inl (SystemExit 0))"
proof -
  have first: "ask_output_format (py_print Header (demo_state [] [''1'', []]))
     = Inr (''png'', \<lparr>filesys = [], stdin = [[]], stdout = [Header, FormatPrompt]\<rparr>)
   \<and> iterdir demo_world [] input_dir = Inr []
   \<and> icns_files [] = []
   \<and> \<not> wants_quit []
   \<and> convert_files demo_world \<lparr>filesys = [], stdin = [[]], stdout = [Header, FormatPrompt]\<rparr>
     = Inr (None, \<lparr>filesys = [], stdin = [], stdout = [Header, FormatPrompt, NoFiles]\<rparr>)
   \<and> main_body demo_world (demo_state [] [''1'', []])
     = Inr (Continue, \<lparr>filesys = [], stdin = [], stdout = [Header, FormatPrompt, NoFiles]\<rparr>)
   \<and> ask_output_format (py_print Header (demo_state demo_junk [''1'', []]))
     = Inr (''png'', \<lparr>filesys = demo_junk, stdin = [[]], stdout = [Header, FormatPrompt]\<rparr>)
   \<and> map name (icns_files [\<lparr>name = ''x.icns'', is_file = True\<rparr>,
                            \<lparr>name = ''y.icns'', is_file = True\<rparr>]) = [''x.icns'', ''y.icns'']
   \<and> outcomes demo_world demo_junk [\<lparr>name = ''x.icns'', is_file = True\<rparr>,
                                      \<lparr>name = ''y.icns'', is_file = True\<rparr>]
     = [Inl (Exception ''cannot identify image file''),
        Inl (Exception ''cannot identify image file'')]
   \<and> (\<exists>st2. convert_files demo_world
               \<lparr>filesys = demo_junk, stdin = [[]], stdout = [Header, FormatPrompt]\<rparr>
             = Inr (Some [], st2)
          \<and> stdout st2 = [Header, FormatPrompt, Found 2,
                           ErrorLine ''x.icns'' ''cannot identify image file'',
                           ErrorLine ''y.icns'' ''cannot identify image file'']
          \<and> main_body demo_world (demo_state demo_junk [''1'', []])
             = Inr (Restart, st2\<lparr>stdin := [], stdout := stdout st2 @ [Ready]\<rparr>))"
  proof -
    let ?sA = "\<lparr>filesys = [] :: (path \<times> demo_file) list, stdin = [[]],
                stdout = [Header, FormatPrompt]\<rparr>"
    let ?sB = "\<lparr>filesys = demo_junk, stdin = [[]], stdout = [Header, FormatPrompt]\<rparr>"
    let ?es = "[\<lparr>name = ''x.icns'', is_file = True\<rparr>, \<lparr>name = ''y.icns'', is_file = True\<rparr>]"
    have a1: "ask_output_format (py_print Header (demo_state [] [''1'', []])) = Inr (''png'', ?sA)"
      by (simp add: io_simps)
    have a2: "mkdir demo_world (filesys ?sA) input_dir = Inr []"
      "mkdir demo_world [] output_dir = Inr []"
      "iterdir demo_world [] input_dir = Inr []"
      by (simp_all add: demo_world_def)
    have a3: "icns_files [] = []" "stdin ?sA = [] # []" "\<not> wants_quit []"
      by (simp_all add: icns_files_def io_simps)
    from empty_cases_distinguished [OF a1 a2, of "[]" "[]"] a3
    have A: "convert_files demo_world ?sA
               = Inr (None, \<lparr>filesys = [], stdin = [], stdout = [Header, FormatPrompt, NoFiles]\<rparr>)"
      "main_body demo_world (demo_state [] [''1'', []])
               = Inr (Continue, \<lparr>filesys = [], stdin = [], stdout = [Header, FormatPrompt, NoFiles]\<rparr>)"
      by simp_all
    have b1: "ask_output_format (py_print Header (demo_state demo_junk [''1'', []]))
                = Inr (''png'', ?sB)"
      by (simp add: io_simps)
    have b2: "mkdir demo_world (filesys ?sB) input_dir = Inr demo_junk"
      "mkdir demo_world demo_junk output_dir = Inr demo_junk"
      "iterdir demo_world demo_junk input_dir = Inr ?es"
      by (simp_all add: demo_world_def demo_junk_def input_dir_def)
    have b3: "icns_files ?es = ?es"
      by (simp add: icns_files_def suffix_of_def Let_def lower_def lower_char_def)
    have b4: "outcomes demo_world demo_junk ?es
       = [Inl (Exception ''cannot identify image file''),
          Inl (Exception ''cannot identify image file'')]"
      by (simp add: demo_world_def demo_junk_def input_dir_def convert_one_def)
    from empty_cases_distinguished [OF b1 b2, of "[]" "[]"] b3 b4
    obtain st2 where B: "convert_files demo_world ?sB = Inr (Some [], st2)"
      "stdout st2 = [Header, FormatPrompt, Found 2,
                             ErrorLine ''x.icns'' ''cannot identify image file'',
                             ErrorLine ''y.icns'' ''cannot identify image file'']"
      "main_body demo_world (demo_state demo_junk [''1'', []]) =
                     (case py_input (py_print Ready st2) of
                        Inl e \<Rightarrow> Inl e
                      | Inr (choice, st4) \<Rightarrow>
                          if wants_quit choice then Inr (Break, py_print Exiting st4)
                          else Inr (Restart, st4))"
      by auto
    from B(1) have "stdin st2 = [[]]"
      by (auto simp: demo_junk_convert_files)
    with B(3) a3(3) have B3: "main_body demo_world (demo_state demo_junk [''1'', []])
               = Inr (Restart, st2\<lparr>stdin := [], stdout := stdout st2 @ [Ready]\<rparr>)"
      by (simp add: py_input_def py_print_def)
    have n: "map name (icns_files ?es) = [''x.icns'', ''y.icns'']"
      by (simp add: b3)
    from a1 a2(3) a3(1,3) A b1 n b4 B(1,2) B3 show ?thesis
      by (intro conjI exI [of _ st2])
  qed
  have second: "ask_output_format (py_print Header (demo_state [] [''1'', quit_reply]))
     = Inr (''png'', \<lparr>filesys = [], stdin = [quit_reply], stdout = [Header, FormatPrompt]\<rparr>)
   \<and> wants_quit quit_reply
   \<and> convert_files demo_world \<lparr>filesys = [], stdin = [quit_reply], stdout = [Header, FormatPrompt]\<rparr>
     = Inl (SystemExit 0)
   \<and> main demo_world (demo_state [] [''1'', quit_reply]) = Inl (SystemExit 0)"
  proof -
    let ?sA = "\<lparr>filesys = [] :: (path \<times> demo_file) list, stdin = [quit_reply],
                stdout = [Header, FormatPrompt]\<rparr>"
    have a1: "ask_output_format (py_print Header (demo_state [] [''1'', quit_reply])) = Inr (''png'', ?sA)"
      by (simp add: io_simps)
    have a2: "mkdir demo_world (filesys ?sA) input_dir = Inr []"
      "mkdir demo_world [] output_dir = Inr []"
      "iterdir demo_world [] input_dir = Inr []"
      by (simp_all add: demo_world_def)
    have a3: "icns_files [] = []" "stdin ?sA = quit_reply # []" "wants_quit quit_reply"
      by (simp_all add: icns_files_def io_simps)
    from empty_cases_distinguished [OF a1 a2, of "quit_reply" "[]"] a3
    have "convert_files demo_world ?sA = Inl (SystemExit 0)"
      "main demo_world (demo_state [] [''1'', quit_reply]) = Inl (SystemExit 0)"
      by simp_all
    with a1 a3(3) show ?thesis
      by (intro conjI)
  qed
  from first second show ?thesis
    by (rule conjI)
qed

end
